theory Spec2Isabelle
  imports Main "HOL-Library.Word" "HOL-Library.Sublist"
begin

unbundle bit_operations_syntax

section \<open>The operating system as seen by the spawner\<close>

text \<open>
  The Python code talks to Windows through pywin32 and the standard library. Every such
  call can raise; the model makes each call a step that appends itself to a trace and
  asks an oracle record \<open>os\<close> whether the call raises and what it returns. Exceptions
  are values; \<open>except PermissionError\<close> and \<open>except Exception\<close> are the two
  handlers of the source, so those are the two classes that are told apart.
\<close>

datatype exn = PermissionError string | Exception string

type_synonym sid = string
type_synonym mask = "32 word"

datatype ace = AccessAllowedAce mask sid

datatype obj = WinSta0 | DefaultDesktop

type_synonym env = "string \<rightharpoonup> string"

text \<open>
  A handle is an integer (\<open>subprocess.Handle\<close> is a subclass of \<open>int\<close>, a PyHANDLE
  converts with \<open>int()\<close>); the pipe ends that are not redirected are the integer \<open>-1\<close>.
  A token is \<open>None\<close> or a PyHANDLE, which is true in a condition when it is not null.
\<close>

type_synonym token = "int option"

definition truthy :: "token \<Rightarrow> bool" where
  "truthy t = (case t of None \<Rightarrow> False | Some h \<Rightarrow> h \<noteq> 0)"

record startupinfo =
  dwFlags :: "32 word"
  hStdInput :: "int option"
  hStdOutput :: "int option"
  hStdError :: "int option"
  wShowWindow :: int

text \<open>The ten arguments of \<open>win32process.CreateProcessAsUser\<close>, in the order of the call.\<close>

record cp_args =
  cp_token :: token
  cp_executable :: "string option"
  cp_cmdline :: string
  cp_inherit :: int
  cp_creationflags :: int
  cp_env :: "env option"
  cp_cwd :: "string option"
  cp_startupinfo :: startupinfo

datatype os_call =
    OpenWindowStation
  | OpenDesktop
  | GetUserObjectSecurity obj
  | AddAccessAllowedAce obj mask sid
  | SetSecurityInfo obj
  | GetTokenInformation token
  | CreateProcessAsUser cp_args
  | GetLastError
  | WaitForSingleObject int int
  | GetExitCodeProcess int
  | HandleClose int
  | OsClose int
  | HandleDetach int
  | CloseHandle int
  | NewPyHANDLE int
  | CreateEnvironmentBlock token
  | TokenDetach int
  | Getcwd
  | Mkdir string
  | DbCommit

datatype level = Info | Warning | Error

text \<open>One constructor for each logging statement of the two modules, with its arguments.\<close>

datatype logmsg =
    SaclSetupFailed sid exn
    \<comment> \<open>error: "Failed to setup SACL for user SID %s: %s"\<close>
  | SaclWarning exn
    \<comment> \<open>warning: "Failed to setup SACL: %s"\<close>
  | CreateProcessLastError int "string option" string token
    \<comment> \<open>error: "Error %r when calling CreateProcessAsUser executable %s args %s with token %r"\<close>
  | ExitedImmediately int "string option" string token
    \<comment> \<open>error: "Process exited immediately with code %r when calling CreateProcessAsUser ..."\<close>
  | CreateProcessException exn
    \<comment> \<open>error: "Exception in CreateProcessAsUser: %s"\<close>
  | CloseFailed string exn
    \<comment> \<open>warning: "Failed to close %s handle: %s"\<close>
  | CloseDevnullFailed exn
    \<comment> \<open>warning: "Failed to close devnull: %s"\<close>
  | Spawning string
    \<comment> \<open>info: "Spawning %s"\<close>
  | TokenHandleFailed string exn
    \<comment> \<open>warning: "Failed to create token handle for %s: %s"\<close>
  | AppdataMissing string
    \<comment> \<open>warning: "APPDATA not found in user environment for %s, using PUBLIC directory"\<close>
  | UserEnvFailed string exn
    \<comment> \<open>warning: "Failed to load user environment for %s: %s"\<close>
  | PermissionDeniedRun string string
    \<comment> \<open>error: "Permission denied trying to run %r. Does %s have access to this file?"\<close>
  | StartFailed string exn
    \<comment> \<open>error: "Failed to start process for %s: %s"\<close>
  | TokenDetachFailed string exn
    \<comment> \<open>warning: "Failed to detach token for %s: %s"\<close>
  | NotebookDirMissing string
    \<comment> \<open>warning: "Configured notebook_dir %s does not exist, using fallback"\<close>
  | GetcwdFailed exn
    \<comment> \<open>warning: "Failed to get current working directory: %s"\<close>
  | UsingTempDir string
    \<comment> \<open>warning: "Using temporary directory as working directory: %s"\<close>

datatype event = Call os_call | Log level logmsg

text \<open>
  What the environment answers: which calls raise, and what the calls that return a
  value return. \<open>environ\<close> is \<open>os.environ\<close> of the hub process;
  \<open>closehandle_result\<close> is the BOOL that the ctypes \<open>CloseHandle\<close> returns for a
  handle, false when the close failed; \<open>version_info\<close> is the major and minor number
  of \<open>sys.version_info\<close>. The errors of pywin32 are \<open>pywintypes.error\<close>, a direct
  subclass of \<open>Exception\<close>: a call of pywin32 that fails raises an \<open>Exception\<close> of
  the model, never a \<open>PermissionError\<close>.
\<close>

record os =
  raises :: "os_call \<Rightarrow> exn option"
  environ :: env
  token_user :: sid
  created :: "int \<times> int \<times> int \<times> int"
  last_error :: int
  wait_result :: int
  exit_code :: int
  closehandle_result :: "int \<Rightarrow> bool"
  std_handles :: "int \<times> int \<times> int"
  devnull_fd :: "int option"
  profile_env :: env
  getcwd_result :: string
  temp_names :: "string list"
  which :: "string \<Rightarrow> string option"
  random_port :: int
  version_info :: "nat \<times> nat"

datatype node = Dir | File

record world =
  dacl :: "obj \<Rightarrow> ace list option"
  fs :: "string \<rightharpoonup> node"
  trace :: "event list"

type_synonym 'a io = "world \<Rightarrow> (exn + 'a) \<times> world"

definition ret :: "'a \<Rightarrow> 'a io" where
  "ret x w = (Inr x, w)"

definition bind :: "'a io \<Rightarrow> ('a \<Rightarrow> 'b io) \<Rightarrow> 'b io" where
  "bind m f w = (case m w of (Inl e, w') \<Rightarrow> (Inl e, w') | (Inr x, w') \<Rightarrow> f x w')"

definition oscall :: "os \<Rightarrow> os_call \<Rightarrow> unit io" where
  "oscall os c w =
     (case raises os c of
        Some e \<Rightarrow> (Inl e, w\<lparr>trace := trace w @ [Call c]\<rparr>)
      | None \<Rightarrow> (Inr (), w\<lparr>trace := trace w @ [Call c]\<rparr>))"

text \<open>A call that cannot raise (\<open>GetLastError\<close>, the ctypes \<open>CloseHandle\<close>).\<close>

definition invoke :: "os_call \<Rightarrow> world \<Rightarrow> world" where
  "invoke c w = w\<lparr>trace := trace w @ [Call c]\<rparr>"

definition logger :: "level \<Rightarrow> logmsg \<Rightarrow> world \<Rightarrow> world" where
  "logger l m w = w\<lparr>trace := trace w @ [Log l m]\<rparr>"

section \<open>win_utils.py: access masks\<close>

text \<open>
  The \<open>win32con\<close> constants are those of the Windows SDK headers; an access mask is a
  DWORD, hence a 32-bit word.
\<close>

definition GENERIC_READ :: mask where "GENERIC_READ = 0x80000000"
definition GENERIC_WRITE :: mask where "GENERIC_WRITE = 0x40000000"
definition GENERIC_EXECUTE :: mask where "GENERIC_EXECUTE = 0x20000000"
definition GENERIC_ALL :: mask where "GENERIC_ALL = 0x10000000"

definition DELETE :: mask where "DELETE = 0x10000"
definition READ_CONTROL :: mask where "READ_CONTROL = 0x20000"
definition WRITE_DAC :: mask where "WRITE_DAC = 0x40000"
definition WRITE_OWNER :: mask where "WRITE_OWNER = 0x80000"

definition WINSTA_ENUMDESKTOPS :: mask where "WINSTA_ENUMDESKTOPS = 0x1"
definition WINSTA_READATTRIBUTES :: mask where "WINSTA_READATTRIBUTES = 0x2"
definition WINSTA_ACCESSCLIPBOARD :: mask where "WINSTA_ACCESSCLIPBOARD = 0x4"
definition WINSTA_CREATEDESKTOP :: mask where "WINSTA_CREATEDESKTOP = 0x8"
definition WINSTA_WRITEATTRIBUTES :: mask where "WINSTA_WRITEATTRIBUTES = 0x10"
definition WINSTA_ACCESSGLOBALATOMS :: mask where "WINSTA_ACCESSGLOBALATOMS = 0x20"
definition WINSTA_EXITWINDOWS :: mask where "WINSTA_EXITWINDOWS = 0x40"
definition WINSTA_ENUMERATE :: mask where "WINSTA_ENUMERATE = 0x100"
definition WINSTA_READSCREEN :: mask where "WINSTA_READSCREEN = 0x200"

definition DESKTOP_READOBJECTS :: mask where "DESKTOP_READOBJECTS = 0x1"
definition DESKTOP_CREATEWINDOW :: mask where "DESKTOP_CREATEWINDOW = 0x2"
definition DESKTOP_CREATEMENU :: mask where "DESKTOP_CREATEMENU = 0x4"
definition DESKTOP_HOOKCONTROL :: mask where "DESKTOP_HOOKCONTROL = 0x8"
definition DESKTOP_JOURNALRECORD :: mask where "DESKTOP_JOURNALRECORD = 0x10"
definition DESKTOP_JOURNALPLAYBACK :: mask where "DESKTOP_JOURNALPLAYBACK = 0x20"
definition DESKTOP_ENUMERATE :: mask where "DESKTOP_ENUMERATE = 0x40"
definition DESKTOP_WRITEOBJECTS :: mask where "DESKTOP_WRITEOBJECTS = 0x80"
definition DESKTOP_SWITCHDESKTOP :: mask where "DESKTOP_SWITCHDESKTOP = 0x100"

definition GENERIC_ACCESS :: mask where
  "GENERIC_ACCESS = GENERIC_READ OR GENERIC_WRITE OR GENERIC_EXECUTE OR GENERIC_ALL"

definition WINSTA_ALL :: mask where
  "WINSTA_ALL =
     WINSTA_ACCESSCLIPBOARD OR WINSTA_ACCESSGLOBALATOMS OR WINSTA_CREATEDESKTOP
     OR WINSTA_ENUMDESKTOPS OR WINSTA_ENUMERATE OR WINSTA_EXITWINDOWS
     OR WINSTA_READATTRIBUTES OR WINSTA_READSCREEN OR WINSTA_WRITEATTRIBUTES
     OR DELETE OR READ_CONTROL OR WRITE_DAC OR WRITE_OWNER"

definition DESKTOP_ALL :: mask where
  "DESKTOP_ALL =
     DESKTOP_CREATEMENU OR DESKTOP_CREATEWINDOW OR DESKTOP_ENUMERATE
     OR DESKTOP_HOOKCONTROL OR DESKTOP_JOURNALPLAYBACK OR DESKTOP_JOURNALRECORD
     OR DESKTOP_READOBJECTS OR DESKTOP_SWITCHDESKTOP OR DESKTOP_WRITEOBJECTS
     OR DELETE OR READ_CONTROL OR WRITE_DAC OR WRITE_OWNER"

section \<open>win_utils.py: setup_sacl\<close>

text \<open>
  \<open>GetSecurityDescriptorDacl\<close> hands out the list the object has now (\<open>None\<close> when it
  has none); \<open>AddAccessAllowedAce\<close> puts the new entry at the end of the Python-side
  list; \<open>SetSecurityInfo\<close> stores the list on the object.
\<close>

definition GetSecurityDescriptorDacl :: "obj \<Rightarrow> ace list option io" where
  "GetSecurityDescriptorDacl ob w = (Inr (dacl w ob), w)"

definition add_ace :: "os \<Rightarrow> obj \<Rightarrow> ace list \<Rightarrow> mask \<Rightarrow> sid \<Rightarrow> ace list io" where
  "add_ace os ob acl m s =
     bind (oscall os (AddAccessAllowedAce ob m s)) (\<lambda>_. ret (acl @ [AccessAllowedAce m s]))"

definition set_dacl :: "os \<Rightarrow> obj \<Rightarrow> ace list \<Rightarrow> unit io" where
  "set_dacl os ob acl w =
     (case oscall os (SetSecurityInfo ob) w of
        (Inl e, w') \<Rightarrow> (Inl e, w')
      | (Inr _, w') \<Rightarrow> (Inr (), w'\<lparr>dacl := (dacl w')(ob := Some acl)\<rparr>))"

definition new_acl_if_none :: "ace list option \<Rightarrow> ace list" where
  "new_acl_if_none d = (case d of None \<Rightarrow> [] | Some acl \<Rightarrow> acl)"

text \<open>The body of the \<open>try\<close> block of \<open>setup_sacl\<close>, statement by statement.\<close>

definition setup_sacl_try :: "os \<Rightarrow> sid \<Rightarrow> unit io" where
  "setup_sacl_try os user_group_sid =
     bind (oscall os OpenWindowStation) (\<lambda>_.
     bind (oscall os (GetUserObjectSecurity WinSta0)) (\<lambda>_.
     bind (GetSecurityDescriptorDacl WinSta0) (\<lambda>d.
     bind (add_ace os WinSta0 (new_acl_if_none d) GENERIC_ACCESS user_group_sid) (\<lambda>a1.
     bind (add_ace os WinSta0 a1 WINSTA_ALL user_group_sid) (\<lambda>dacl_win_sta.
     bind (set_dacl os WinSta0 dacl_win_sta) (\<lambda>_.
     bind (oscall os OpenDesktop) (\<lambda>_.
     bind (oscall os (GetUserObjectSecurity DefaultDesktop)) (\<lambda>_.
     bind (GetSecurityDescriptorDacl DefaultDesktop) (\<lambda>d'.
     bind (add_ace os DefaultDesktop (new_acl_if_none d') GENERIC_ACCESS user_group_sid) (\<lambda>b1.
     bind (add_ace os DefaultDesktop b1 DESKTOP_ALL user_group_sid) (\<lambda>dacl_desktop.
     set_dacl os DefaultDesktop dacl_desktop)))))))))))"

text \<open>\<open>except Exception as exc: logger.error(...); raise\<close>\<close>

definition setup_sacl :: "os \<Rightarrow> sid \<Rightarrow> unit io" where
  "setup_sacl os user_group_sid w =
     (case setup_sacl_try os user_group_sid w of
        (Inl exc, w') \<Rightarrow> (Inl exc, logger Error (SaclSetupFailed user_group_sid exc) w')
      | (Inr u, w') \<Rightarrow> (Inr u, w'))"

section \<open>subprocess.list2cmdline\<close>

text \<open>
  \<open>do_execute_child\<close> turns an argument list into one string with the standard
  library's \<open>list2cmdline\<close>. \<open>result\<close> is the Python list of string pieces that is
  joined at the end, \<open>bs_buf\<close> the buffer of pending backslashes.
\<close>

definition backslash :: char where "backslash = CHR 0x5C"
definition dquote :: char where "dquote = CHR 0x22"
definition squote :: char where "squote = CHR 0x27"
definition space :: char where "space = CHR 0x20"
definition tab :: char where "tab = CHR 0x09"

fun list2cmdline_chars :: "string \<Rightarrow> string list \<Rightarrow> string \<Rightarrow> string list \<times> string" where
  "list2cmdline_chars [] result bs_buf = (result, bs_buf)"
| "list2cmdline_chars (c # cs) result bs_buf =
     (if c = backslash then list2cmdline_chars cs result (bs_buf @ [c])
      else if c = dquote then
        list2cmdline_chars cs
          (result @ [replicate (length bs_buf * 2) backslash] @ [[backslash, dquote]]) []
      else if bs_buf \<noteq> [] then
        list2cmdline_chars cs (result @ map (\<lambda>b. [b]) bs_buf @ [[c]]) []
      else list2cmdline_chars cs (result @ [[c]]) bs_buf)"

definition needquote :: "string \<Rightarrow> bool" where
  "needquote arg = (space \<in> set arg \<or> tab \<in> set arg \<or> arg = [])"

fun list2cmdline_args :: "string list \<Rightarrow> string list \<Rightarrow> string list" where
  "list2cmdline_args [] result = result"
| "list2cmdline_args (arg # seq) result =
     (let result1 = (if result \<noteq> [] then result @ [[space]] else result);
          result2 = (if needquote arg then result1 @ [[dquote]] else result1);
          (result3, bs_buf) = list2cmdline_chars arg result2 [];
          result4 = (if bs_buf \<noteq> [] then result3 @ map (\<lambda>b. [b]) bs_buf else result3);
          result5 = (if needquote arg then result4 @ map (\<lambda>b. [b]) bs_buf @ [[dquote]]
                     else result4)
      in list2cmdline_args seq result5)"

definition list2cmdline :: "string list \<Rightarrow> string" where
  "list2cmdline seq = concat (list2cmdline_args seq [])"


section \<open>win_utils.py: PopenAsUser\<close>

text \<open>
  The fields of the \<open>Popen\<close> object that \<open>do_execute_child\<close> reads and writes.
  \<open>devnull\<close> is \<open>Some fd\<close> when the object has the attribute \<open>_devnull\<close>.
\<close>

record popen =
  p_token :: token
  devnull :: "int option"
  child_created :: bool
  p_handle :: "int option"
  p_pid :: "int option"

datatype cmdline = CmdStr string | CmdList "string list"

definition STARTF_USESHOWWINDOW :: "32 word" where "STARTF_USESHOWWINDOW = 0x1"
definition STARTF_USESTDHANDLES :: "32 word" where "STARTF_USESTDHANDLES = 0x100"
definition SW_HIDE :: int where "SW_HIDE = 0"
definition WAIT_OBJECT_0 :: int where "WAIT_OBJECT_0 = 0"
definition STILL_ACTIVE :: int where "STILL_ACTIVE = 259"

definition STARTUPINFO :: startupinfo where
  "STARTUPINFO = \<lparr>dwFlags = 0, hStdInput = None, hStdOutput = None, hStdError = None,
                  wShowWindow = 0\<rparr>"

text \<open>\<open>try: handle.Close() except Exception as exc: logger.warning(...)\<close>\<close>

definition close_one :: "os \<Rightarrow> int \<times> string \<Rightarrow> world \<Rightarrow> world" where
  "close_one os hn w =
     (if fst hn \<noteq> -1 then
        (case oscall os (HandleClose (fst hn)) w of
           (Inl exc, w') \<Rightarrow> logger Warning (CloseFailed (snd hn) exc) w'
         | (Inr _, w') \<Rightarrow> w')
      else w)"

definition close_pipe_handles :: "os \<Rightarrow> popen \<Rightarrow> int \<Rightarrow> int \<Rightarrow> int \<Rightarrow> world \<Rightarrow> world" where
  "close_pipe_handles os self p2cread c2pwrite errwrite w =
     (let handles_to_close = [(p2cread, ''p2cread''), (c2pwrite, ''c2pwrite''),
                              (errwrite, ''errwrite'')];
          w1 = fold (close_one os) handles_to_close w
      in case devnull self of
           None \<Rightarrow> w1
         | Some fd \<Rightarrow>
             (case oscall os (OsClose fd) w1 of
                (Inl exc, w2) \<Rightarrow> logger Warning (CloseDevnullFailed exc) w2
              | (Inr _, w2) \<Rightarrow> w2))"

text \<open>Lines 300 to 312: the startup parameters and the shell wrapper.\<close>

definition use_std_handles :: "int \<Rightarrow> int \<Rightarrow> int \<Rightarrow> bool" where
  "use_std_handles p2cread c2pwrite errwrite = (-1 \<notin> set [p2cread, c2pwrite, errwrite])"

text \<open>
  The three child-side handles come from \<open>Popen._get_handles\<close>, the only caller of
  \<open>_execute_child\<close> being \<open>Popen.__init__\<close>. That method returns \<open>-1\<close> six times
  when \<open>stdin\<close>, \<open>stdout\<close> and \<open>stderr\<close> are all \<open>None\<close>; otherwise each of
  the three child-side handles is the result of \<open>_make_inheritable\<close>, a handle that
  \<open>DuplicateHandle\<close> returned, which is not \<open>-1\<close>.
\<close>

definition from_get_handles :: "int \<times> int \<times> int \<Rightarrow> bool" where
  "from_get_handles h =
     (case h of (p2cread, c2pwrite, errwrite) \<Rightarrow>
        (p2cread = -1 \<and> c2pwrite = -1 \<and> errwrite = -1)
      \<or> (p2cread \<noteq> -1 \<and> c2pwrite \<noteq> -1 \<and> errwrite \<noteq> -1))"

definition startup_handles :: "startupinfo option \<Rightarrow> int \<Rightarrow> int \<Rightarrow> int \<Rightarrow> startupinfo" where
  "startup_handles startupinfo p2cread c2pwrite errwrite =
     (let si = (case startupinfo of None \<Rightarrow> STARTUPINFO | Some s \<Rightarrow> s)
      in if use_std_handles p2cread c2pwrite errwrite
         then si\<lparr>dwFlags := dwFlags si OR STARTF_USESTDHANDLES,
                 hStdInput := Some p2cread, hStdOutput := Some c2pwrite,
                 hStdError := Some errwrite\<rparr>
         else si)"

definition startup_shell :: "bool \<Rightarrow> startupinfo \<Rightarrow> startupinfo" where
  "startup_shell shell si =
     (if shell then si\<lparr>dwFlags := dwFlags si OR STARTF_USESHOWWINDOW, wShowWindow := SW_HIDE\<rparr>
      else si)"

definition args_str :: "cmdline \<Rightarrow> string" where
  "args_str args = (case args of CmdStr s \<Rightarrow> s | CmdList seq \<Rightarrow> list2cmdline seq)"

definition comspec :: "os \<Rightarrow> string" where
  "comspec os = (case environ os ''COMSPEC'' of None \<Rightarrow> ''cmd.exe'' | Some c \<Rightarrow> c)"

definition args_shell :: "os \<Rightarrow> bool \<Rightarrow> string \<Rightarrow> string" where
  "args_shell os shell args =
     (if shell then comspec os @ '' /c '' @ [dquote] @ args @ [dquote] else args)"

text \<open>Lines 314 to 320: the grant, under its own \<open>try\<close>.\<close>

definition grant_try :: "os \<Rightarrow> token \<Rightarrow> unit io" where
  "grant_try os tok =
     bind (oscall os (GetTokenInformation tok)) (\<lambda>_. setup_sacl os (token_user os))"

definition grant_access :: "os \<Rightarrow> token \<Rightarrow> world \<Rightarrow> world" where
  "grant_access os tok w =
     (if truthy tok then
        (case grant_try os tok w of
           (Inl exc, w') \<Rightarrow> logger Warning (SaclWarning exc) w'
         | (Inr _, w') \<Rightarrow> w')
      else w)"

text \<open>Lines 326 to 357: the body of the first \<open>try\<close>.\<close>

definition create_and_check ::
  "os \<Rightarrow> token \<Rightarrow> cp_args \<Rightarrow> (int \<times> int \<times> int \<times> int) io" where
  "create_and_check os tok a =
     bind (oscall os (CreateProcessAsUser a)) (\<lambda>_.
       (case created os of (hp, ht, pid, tid) \<Rightarrow>
          (\<lambda>w. let w1 = invoke GetLastError w; err = last_error os in
             if err \<noteq> 0 then
               (Inr (hp, ht, pid, tid),
                logger Error (CreateProcessLastError err (cp_executable a) (cp_cmdline a) tok) w1)
             else
               bind (oscall os (WaitForSingleObject hp 1000)) (\<lambda>_.
                 if wait_result os = WAIT_OBJECT_0 then
                   bind (oscall os (GetExitCodeProcess hp)) (\<lambda>_. (\<lambda>w3.
                     if exit_code os \<noteq> STILL_ACTIVE then
                       (Inr (hp, ht, pid, tid),
                        logger Error
                          (ExitedImmediately (exit_code os) (cp_executable a) (cp_cmdline a) tok) w3)
                     else (Inr (hp, ht, pid, tid), w3)))
                 else ret (hp, ht, pid, tid)) w1)))"

text \<open>
  Lines 367 to 377: keep the process handle, close the thread handle. The value that
  \<open>CLOSEHANDLE\<close> returns is not used.
\<close>

definition retain_handle :: "os \<Rightarrow> popen \<Rightarrow> int \<Rightarrow> int \<Rightarrow> int \<Rightarrow> popen io" where
  "retain_handle os self hp ht pid w =
     (let self1 = self\<lparr>child_created := True\<rparr>;
          (r, w1) = (if hp \<noteq> 0 then
                       bind (oscall os (HandleDetach hp))
                         (\<lambda>_. ret (self1\<lparr>p_handle := Some hp, p_pid := Some pid\<rparr>)) w
                     else (Inr self1, w))
      in (r, if ht \<noteq> 0 then invoke (CloseHandle ht) w1 else w1))"

text \<open>Lines 326 to 337: the arguments of the \<open>CreateProcessAsUser\<close> call.\<close>

definition create_args ::
  "os \<Rightarrow> popen \<Rightarrow> cmdline \<Rightarrow> string option \<Rightarrow> bool \<Rightarrow> string option \<Rightarrow>
   env option \<Rightarrow> startupinfo option \<Rightarrow> int \<Rightarrow> bool \<Rightarrow> int \<Rightarrow> int \<Rightarrow> int \<Rightarrow> cp_args" where
  "create_args os self args executable close_fds cwd env startupinfo creationflags shell
     p2cread c2pwrite errwrite =
     \<lparr>cp_token = p_token self, cp_executable = executable,
      cp_cmdline = args_shell os shell (args_str args),
      cp_inherit = (if close_fds then 0 else 1),
      cp_creationflags = creationflags, cp_env = env, cp_cwd = cwd,
      cp_startupinfo =
        startup_shell shell (startup_handles startupinfo p2cread c2pwrite errwrite)\<rparr>"

text \<open>
  \<open>do_execute_child\<close>. The parameters \<open>preexec_fn\<close>, \<open>p2cwrite\<close>, \<open>c2pread\<close> and
  \<open>errread\<close> are not used by its body and are left out.
\<close>

definition do_execute_child ::
  "os \<Rightarrow> popen \<Rightarrow> cmdline \<Rightarrow> string option \<Rightarrow> bool \<Rightarrow> int list \<Rightarrow> string option \<Rightarrow>
   env option \<Rightarrow> startupinfo option \<Rightarrow> int \<Rightarrow> bool \<Rightarrow> int \<Rightarrow> int \<Rightarrow> int \<Rightarrow> popen io" where
  "do_execute_child os self args executable close_fds pass_fds cwd env startupinfo
     creationflags shell p2cread c2pwrite errwrite w =
     (if pass_fds \<noteq> [] then (Inl (Exception ''pass_fds not supported on Windows.''), w)
      else
        let a = create_args os self args executable close_fds cwd env startupinfo
                  creationflags shell p2cread c2pwrite errwrite;
            w1 = grant_access os (p_token self) w
        in case create_and_check os (p_token self) a w1 of
             (Inl exc, w2) \<Rightarrow>
               (Inl exc,
                close_pipe_handles os self p2cread c2pwrite errwrite
                  (logger Error (CreateProcessException exc) w2))
           | (Inr (hp, ht, pid, tid), w2) \<Rightarrow>
               retain_handle os self hp ht pid
                 (close_pipe_handles os self p2cread c2pwrite errwrite w2))"

text \<open>
  The keyword arguments of \<open>PopenAsUser\<close> that reach \<open>do_execute_child\<close>; a field is
  \<open>None\<close> when the dictionary has no such key. \<open>dict.update\<close> lets the keys of its
  argument win.
\<close>

record kwargs =
  kw_token :: "token option"
  kw_cwd :: "string option option"
  kw_env :: "env option option"
  kw_executable :: "string option option"
  kw_shell :: "bool option"
  kw_startupinfo :: "startupinfo option option"
  kw_creationflags :: "int option"

definition orelse :: "'a option \<Rightarrow> 'a option \<Rightarrow> 'a option" where
  "orelse a b = (case a of Some x \<Rightarrow> Some x | None \<Rightarrow> b)"

definition kwargs_update :: "kwargs \<Rightarrow> kwargs \<Rightarrow> kwargs" where
  "kwargs_update d u =
     \<lparr>kw_token = orelse (kw_token u) (kw_token d),
      kw_cwd = orelse (kw_cwd u) (kw_cwd d),
      kw_env = orelse (kw_env u) (kw_env d),
      kw_executable = orelse (kw_executable u) (kw_executable d),
      kw_shell = orelse (kw_shell u) (kw_shell d),
      kw_startupinfo = orelse (kw_startupinfo u) (kw_startupinfo d),
      kw_creationflags = orelse (kw_creationflags u) (kw_creationflags d)\<rparr>"

definition dflt :: "'a \<Rightarrow> 'a option \<Rightarrow> 'a" where
  "dflt d a = (case a of Some x \<Rightarrow> x | None \<Rightarrow> d)"

text \<open>
  Lines 218 to 266 define \<open>_execute_child\<close> according to \<open>sys.version_info\<close>: after
  \<open>errwrite\<close> it has seven more parameters from 3.13 on, six from 3.9 on and two before.
  \<open>Popen.__init__\<close> of CPython passes, after \<open>errwrite\<close>, \<open>restore_signals\<close> and
  \<open>start_new_session\<close> (3.7 and 3.8), then also \<open>gid\<close>, \<open>gids\<close>, \<open>uid\<close> and
  \<open>umask\<close> (from 3.9 on), then also \<open>process_group\<close> (from 3.11 on).
\<close>

definition version_ge :: "nat \<times> nat \<Rightarrow> nat \<times> nat \<Rightarrow> bool" where
  "version_ge v u = (fst u < fst v \<or> (fst u = fst v \<and> snd u \<le> snd v))"

definition execute_child_params :: "nat \<times> nat \<Rightarrow> nat" where
  "execute_child_params v =
     (if version_ge v (3, 13) then 7 else if version_ge v (3, 9) then 6 else 2)"

definition popen_init_passes :: "nat \<times> nat \<Rightarrow> nat" where
  "popen_init_passes v =
     (if version_ge v (3, 11) then 7 else if version_ge v (3, 9) then 6 else 2)"

text \<open>
  The constructor: \<open>self._token = token\<close>, then \<open>Popen.__init__\<close> with
  \<open>close_fds = False\<close> and \<open>pass_fds = ()\<close>, which calls \<open>_execute_child\<close> and so
  \<open>do_execute_child\<close> with the three child-side handles \<open>Popen._get_handles\<close> made.
  When \<open>Popen.__init__\<close> passes more arguments than the \<open>_execute_child\<close> of lines
  218 to 266 takes, the call raises a \<open>TypeError\<close> and \<open>do_execute_child\<close> is not
  entered.
\<close>

definition arity_error :: exn where
  "arity_error =
     Exception ''TypeError: _execute_child() takes 23 positional arguments but 24 were given''"

definition PopenAsUser :: "os \<Rightarrow> cmdline \<Rightarrow> kwargs \<Rightarrow> popen io" where
  "PopenAsUser os args kw =
     (if popen_init_passes (version_info os) \<noteq> execute_child_params (version_info os)
      then (\<lambda>w. (Inl arity_error, w))
      else
        let self = \<lparr>p_token = dflt None (kw_token kw), devnull = devnull_fd os,
                     child_created = False, p_handle = None, p_pid = None\<rparr>
        in case std_handles os of (p2cread, c2pwrite, errwrite) \<Rightarrow>
             do_execute_child os self args (dflt None (kw_executable kw)) False []
               (dflt None (kw_cwd kw)) (dflt None (kw_env kw)) (dflt None (kw_startupinfo kw))
               (dflt 0 (kw_creationflags kw)) (dflt False (kw_shell kw))
               p2cread c2pwrite errwrite)"

section \<open>shlex.quote and str.join\<close>

definition safe_char :: "char \<Rightarrow> bool" where
  "safe_char c =
     (c \<in> set ''abcdefghijklmnopqrstuvwxyzABCDEFGHIJKLMNOPQRSTUVWXYZ0123456789_@%+=:,./-'')"

definition shlex_quote :: "string \<Rightarrow> string" where
  "shlex_quote s =
     (if s = [] then [squote, squote]
      else if list_all safe_char s then s
      else [squote]
           @ concat (map (\<lambda>c. if c = squote then [squote, dquote, squote, dquote, squote]
                                else [c]) s)
           @ [squote])"

fun join :: "string \<Rightarrow> string list \<Rightarrow> string" where
  "join sep [] = []"
| "join sep [x] = x"
| "join sep (x # y # ys) = x @ sep @ join sep (y # ys)"

section \<open>winlocalprocessspawner.py: WinLocalProcessSpawner\<close>

text \<open>
  The attributes of the spawner that the three methods use. \<open>base_env\<close> is what
  \<open>LocalProcessSpawner.get_env\<close> returns and \<open>auth_state\<close> what
  \<open>user.get_auth_state()\<close> returns; \<open>shell_cmd\<close> unset is the empty list.
\<close>

record spawner =
  user_name :: string
  cmd :: "string list"
  get_args :: "string list"
  shell_cmd :: "string list"
  notebook_dir :: string
  popen_kwargs :: kwargs
  base_env :: env
  auth_state :: "(string \<rightharpoonup> int) option"
  ip :: string
  port :: int
  proc :: "popen option"
  pid :: "int option"
  server_ip :: string
  server_port :: int

definition win_env_keep :: "string list" where
  "win_env_keep = [''SYSTEMROOT'', ''APPDATA'', ''WINDIR'', ''USERPROFILE'', ''TEMP'']"

definition get_env :: "os \<Rightarrow> spawner \<Rightarrow> env" where
  "get_env os self =
     fold (\<lambda>key env. case environ os key of Some v \<Rightarrow> env(key \<mapsto> v) | None \<Rightarrow> env)
       win_env_keep (base_env self)"

definition isdir :: "world \<Rightarrow> string \<Rightarrow> bool" where
  "isdir w p = (fs w p = Some Dir)"

text \<open>
  \<open>tempfile.mkdtemp\<close>: the candidate paths are tried in turn, one that exists already is
  skipped (\<open>os.mkdir\<close> is called and reports it), the first that \<open>os.mkdir\<close> can make is
  returned, and any other error of \<open>os.mkdir\<close> is raised.
\<close>

fun mkdtemp_loop :: "os \<Rightarrow> string list \<Rightarrow> string io" where
  "mkdtemp_loop os [] w = (Inl (Exception ''No usable temporary directory name found''), w)"
| "mkdtemp_loop os (file # names) w =
     (if fs w file \<noteq> None then mkdtemp_loop os names (invoke (Mkdir file) w)
      else case oscall os (Mkdir file) w of
             (Inl exc, w') \<Rightarrow> (Inl exc, w')
           | (Inr _, w') \<Rightarrow> (Inr file, w'\<lparr>fs := (fs w')(file \<mapsto> Dir)\<rparr>))"

definition mkdtemp :: "os \<Rightarrow> string io" where
  "mkdtemp os = mkdtemp_loop os (temp_names os)"

definition userprofile :: "env option \<Rightarrow> string option" where
  "userprofile user_env =
     (case user_env of
        None \<Rightarrow> None
      | Some ue \<Rightarrow> (case ue ''USERPROFILE'' of
                     None \<Rightarrow> None
                   | Some p \<Rightarrow> if p \<noteq> [] then Some p else None))"

definition determine_working_directory :: "os \<Rightarrow> spawner \<Rightarrow> env option \<Rightarrow> string io" where
  "determine_working_directory os self user_env w =
     (if notebook_dir self \<noteq> [] \<and> isdir w (notebook_dir self) then (Inr (notebook_dir self), w)
      else
        let w1 = (if notebook_dir self \<noteq> []
                  then logger Warning (NotebookDirMissing (notebook_dir self)) w else w)
        in case (case userprofile user_env of
                   None \<Rightarrow> None
                 | Some p \<Rightarrow> if isdir w1 p then Some p else None) of
             Some p \<Rightarrow> (Inr p, w1)
           | None \<Rightarrow>
               (case oscall os Getcwd w1 of
                  (Inr _, w2) \<Rightarrow> (Inr (getcwd_result os), w2)
                | (Inl exc, w2) \<Rightarrow>
                    bind (mkdtemp os)
                      (\<lambda>temp_dir w4. (Inr temp_dir, logger Warning (UsingTempDir temp_dir) w4))
                      (logger Warning (GetcwdFailed exc) w2)))"

text \<open>The profile directory of the second step, when there is one and it exists.\<close>

definition profile_dir :: "world \<Rightarrow> env option \<Rightarrow> string option" where
  "profile_dir w user_env =
     (case userprofile user_env of None \<Rightarrow> None | Some p \<Rightarrow> if isdir w p then Some p else None)"

text \<open>Lines 81 to 89 of \<open>start\<close>: the command.\<close>

definition start_cmd :: "spawner \<Rightarrow> string list" where
  "start_cmd self =
     (let c = cmd self @ get_args self
      in if shell_cmd self \<noteq> [] then shell_cmd self @ [join '' '' (map shlex_quote c)] else c)"

text \<open>Lines 91 to 100: the token from the authentication state.\<close>

definition start_token :: "os \<Rightarrow> spawner \<Rightarrow> world \<Rightarrow> token \<times> world" where
  "start_token os self w =
     (case auth_state self of
        None \<Rightarrow> (None, w)
      | Some st \<Rightarrow>
          (case st ''auth_token'' of
             None \<Rightarrow> (None, w)
           | Some token_value \<Rightarrow>
               if token_value \<noteq> 0 then
                 (case oscall os (NewPyHANDLE token_value) w of
                    (Inl exc, w') \<Rightarrow>
                      (None, logger Warning (TokenHandleFailed (user_name self) exc) w')
                  | (Inr _, w') \<Rightarrow> (Some token_value, w'))
               else (None, w)))"

text \<open>
  Lines 105 to 121: the user's environment block. The result is the pair of
  \<open>user_env\<close> and the updated \<open>env\<close>.
\<close>

definition start_user_env ::
  "os \<Rightarrow> spawner \<Rightarrow> token \<Rightarrow> env \<Rightarrow> world \<Rightarrow> (env option \<times> env) \<times> world" where
  "start_user_env os self tok env w =
     (if truthy tok then
        (case oscall os (CreateEnvironmentBlock tok) w of
           (Inl exc, w') \<Rightarrow> ((None, env), logger Warning (UserEnvFailed (user_name self) exc) w')
         | (Inr _, w') \<Rightarrow>
             let user_env = profile_env os; env' = env ++ user_env in
             if user_env ''APPDATA'' = None \<or> user_env ''APPDATA'' = Some [] then
               (case user_env ''PUBLIC'' of
                  Some pub \<Rightarrow> ((Some (user_env(''USERPROFILE'' \<mapsto> pub)), env'),
                               logger Warning (AppdataMissing (user_name self)) w')
                | None \<Rightarrow> ((Some user_env, env'),
                           logger Warning (AppdataMissing (user_name self)) w'))
             else ((Some user_env, env'), w'))
      else ((None, env), w))"

text \<open>Lines 126 to 133: the keyword arguments for the launcher.\<close>

definition no_kwargs :: kwargs where
  "no_kwargs = \<lparr>kw_token = None, kw_cwd = None, kw_env = None, kw_executable = None,
                kw_shell = None, kw_startupinfo = None, kw_creationflags = None\<rparr>"

definition start_popen_kwargs :: "spawner \<Rightarrow> token \<Rightarrow> string \<Rightarrow> env \<Rightarrow> kwargs" where
  "start_popen_kwargs self tok cwd env =
     (kwargs_update (no_kwargs\<lparr>kw_token := Some tok, kw_cwd := Some (Some cwd)\<rparr>)
        (popen_kwargs self))\<lparr>kw_env := Some (Some env)\<rparr>"

text \<open>Lines 149 to 155: the \<open>finally\<close> block.\<close>

definition detach_token :: "os \<Rightarrow> spawner \<Rightarrow> token \<Rightarrow> world \<Rightarrow> world" where
  "detach_token os self tok w =
     (case tok of
        None \<Rightarrow> w
      | Some h \<Rightarrow>
          if h \<noteq> 0 then
            (case oscall os (TokenDetach h) w of
               (Inl exc, w') \<Rightarrow> logger Warning (TokenDetachFailed (user_name self) exc) w'
             | (Inr _, w') \<Rightarrow> w')
          else w)"

text \<open>Lines 135 to 155: the launch with its handlers.\<close>

definition start_launch ::
  "os \<Rightarrow> spawner \<Rightarrow> string list \<Rightarrow> kwargs \<Rightarrow> token \<Rightarrow> spawner io" where
  "start_launch os self c kw tok w =
     (case (case PopenAsUser os (CmdList c) kw w of
              (Inr p, w') \<Rightarrow> (Inr (self\<lparr>proc := Some p, pid := p_pid p\<rparr>), w')
            | (Inl (PermissionError m), w') \<Rightarrow>
                (case c of
                   [] \<Rightarrow> (Inl (Exception ''list index out of range''), w')
                 | c0 # _ \<Rightarrow>
                     (Inl (PermissionError m),
                      logger Error
                        (PermissionDeniedRun (case which os c0 of Some script \<Rightarrow> script | None \<Rightarrow> c0)
                           (user_name self)) w'))
            | (Inl (Exception m), w') \<Rightarrow>
                (Inl (Exception m), logger Error (StartFailed (user_name self) (Exception m)) w'))
      of (r, w1) \<Rightarrow> (r, detach_token os self tok w1))"

text \<open>
  \<open>start\<close>. On success the result is the returned pair and the spawner with its
  updated attributes.
\<close>

definition start :: "os \<Rightarrow> spawner \<Rightarrow> ((string \<times> int) \<times> spawner) io" where
  "start os self0 w0 =
     (let self = self0\<lparr>port := random_port os\<rparr>;
          env = get_env os self;
          c = start_cmd self;
          w1 = logger Info (Spawning (join '' '' (map shlex_quote c))) w0
      in case start_token os self w1 of (tok, w2) \<Rightarrow>
         (case start_user_env os self tok env w2 of ((user_env, env'), w3) \<Rightarrow>
            bind (determine_working_directory os self user_env) (\<lambda>cwd.
            bind (start_launch os self c (start_popen_kwargs self tok cwd env') tok) (\<lambda>self1.
              (let self2 = (if ip self1 \<noteq> [] then self1\<lparr>server_ip := ip self1\<rparr> else self1)
                             \<lparr>server_port := port self1\<rparr>
               in bind (oscall os DbCommit) (\<lambda>_.
                    ret ((if ip self2 \<noteq> [] then ip self2 else ''127.0.0.1'', port self2),
                         self2))))) w3))"

section \<open>Observations on the trace\<close>

text \<open>
  \<open>emitted w w'\<close> is what a run from \<open>w\<close> to \<open>w'\<close> added to the trace.
  \<open>grant_calls\<close> lists, in order, the calls that the identity extraction and
  \<open>setup_sacl\<close> make for a token; \<open>is_grant_call\<close> recognises a call of that kind,
  \<open>is_close_call\<close> the closing of a pipe end or of devnull, \<open>is_create_call\<close> the
  creation of the process, \<open>is_cleanup_call\<close> a closing or the detaching of the token.
\<close>

definition emitted :: "world \<Rightarrow> world \<Rightarrow> event list" where
  "emitted w w' = drop (length (trace w)) (trace w')"

definition grant_calls :: "token \<Rightarrow> sid \<Rightarrow> os_call list" where
  "grant_calls tok s =
     [GetTokenInformation tok,
      OpenWindowStation, GetUserObjectSecurity WinSta0,
      AddAccessAllowedAce WinSta0 GENERIC_ACCESS s, AddAccessAllowedAce WinSta0 WINSTA_ALL s,
      SetSecurityInfo WinSta0,
      OpenDesktop, GetUserObjectSecurity DefaultDesktop,
      AddAccessAllowedAce DefaultDesktop GENERIC_ACCESS s,
      AddAccessAllowedAce DefaultDesktop DESKTOP_ALL s,
      SetSecurityInfo DefaultDesktop]"

fun is_grant_call :: "os_call \<Rightarrow> bool" where
  "is_grant_call (GetTokenInformation t) = True"
| "is_grant_call OpenWindowStation = True"
| "is_grant_call OpenDesktop = True"
| "is_grant_call (GetUserObjectSecurity ob) = True"
| "is_grant_call (AddAccessAllowedAce ob m s) = True"
| "is_grant_call (SetSecurityInfo ob) = True"
| "is_grant_call c = False"

fun is_close_call :: "os_call \<Rightarrow> bool" where
  "is_close_call (HandleClose h) = True"
| "is_close_call (OsClose fd) = True"
| "is_close_call c = False"

fun is_create_call :: "os_call \<Rightarrow> bool" where
  "is_create_call (CreateProcessAsUser a) = True"
| "is_create_call c = False"

fun is_cleanup_call :: "os_call \<Rightarrow> bool" where
  "is_cleanup_call (HandleClose h) = True"
| "is_cleanup_call (OsClose fd) = True"
| "is_cleanup_call (TokenDetach h) = True"
| "is_cleanup_call c = False"

text \<open>\<open>logs\<close> keeps the log records of a list of events, in order.\<close>

definition logs :: "event list \<Rightarrow> (level \<times> logmsg) list" where
  "logs evs = concat (map (\<lambda>ev. case ev of Log l m \<Rightarrow> [(l, m)] | Call c \<Rightarrow> []) evs)"

text \<open>
  \<open>emits_only P w w'\<close>: the trace of \<open>w'\<close> is the trace of \<open>w\<close> followed by events
  that all satisfy \<open>P\<close>.
\<close>

definition emits_only :: "(event \<Rightarrow> bool) \<Rightarrow> world \<Rightarrow> world \<Rightarrow> bool" where
  "emits_only P w w' = (prefix (trace w) (trace w') \<and> list_all P (emitted w w'))"

abbreviation ext :: "world \<Rightarrow> world \<Rightarrow> bool" where
  "ext \<equiv> emits_only (\<lambda>_. True)"

section \<open>Concrete environments\<close>

text \<open>
  An operating system in which no call raises, the hub runs in \<open>C:/hub\<close> under
  CPython 3.13 and the new process is still running after the wait; and a world in which the window station has a
  DACL with one entry and the desktop has none.
\<close>

definition quiet_os :: os where
  "quiet_os = \<lparr>raises = (\<lambda>c. None),
                environ = [''SYSTEMROOT'' \<mapsto> ''C:/Windows'', ''TEMP'' \<mapsto> ''C:/Temp''],
                token_user = ''S-1-5-21-1004'',
                created = (100, 101, 4242, 4243),
                last_error = 0, wait_result = 258, exit_code = 259,
                closehandle_result = (\<lambda>h. True),
                std_handles = (-1, -1, -1), devnull_fd = None,
                profile_env = [''APPDATA'' \<mapsto> ''C:/Users/ann/AppData'',
                               ''USERPROFILE'' \<mapsto> ''C:/Users/ann''],
                getcwd_result = ''C:/hub'',
                temp_names = [''C:/Temp/tmpa'', ''C:/Temp/tmpb''],
                which = (\<lambda>c. None),
                random_port = 8888,
                version_info = (3, 13)\<rparr>"

definition world0 :: world where
  "world0 = \<lparr>dacl = (\<lambda>ob. None)(WinSta0 := Some [AccessAllowedAce 0xF037F ''S-1-5-18'']),
             fs = [''C:/Users/ann'' \<mapsto> Dir, ''C:/Temp/tmpa'' \<mapsto> File],
             trace = []\<rparr>"

text \<open>A spawner for the user \<open>ann\<close>, whose authentication state holds the token 7.\<close>

definition spawner0 :: spawner where
  "spawner0 = \<lparr>user_name = ''ann'', cmd = [''jupyterhub-singleuser''],
                get_args = [''--port=8888''], shell_cmd = [], notebook_dir = [],
                popen_kwargs = no_kwargs, base_env = [''PATH'' \<mapsto> ''C:/bin''],
                auth_state = Some [''auth_token'' \<mapsto> 7],
                ip = [], port = 0, proc = None, pid = None,
                server_ip = [], server_port = 0\<rparr>"

text \<open>The same operating system, except that \<open>os.getcwd\<close> raises.\<close>

definition getcwd_fails_os :: os where
  "getcwd_fails_os =
     quiet_os\<lparr>raises := (\<lambda>c. if c = Getcwd then Some (Exception ''No current dir'') else None)\<rparr>"

text \<open>
  A launcher object with the token 7, and the launch of the single-user server with no
  stream redirected. In \<open>no_desktop_os\<close> the desktop cannot be opened; in
  \<open>early_exit_os\<close> the child has exited with the code 0xC0000142 when the wait returns;
  in \<open>stale_error_os\<close> it has exited likewise and \<open>GetLastError\<close> returns 6.
\<close>

definition popen0 :: popen where
  "popen0 = \<lparr>p_token = Some 7, devnull = None, child_created = False,
              p_handle = None, p_pid = None\<rparr>"

definition no_desktop_os :: os where
  "no_desktop_os =
     quiet_os\<lparr>raises := (\<lambda>c. if c = OpenDesktop then Some (Exception ''no desktop'') else None)\<rparr>"

definition stale_error_os :: os where
  "stale_error_os = quiet_os\<lparr>last_error := 6, wait_result := 0, exit_code := 3221225794\<rparr>"

definition early_exit_os :: os where
  "early_exit_os = quiet_os\<lparr>wait_result := 0, exit_code := 3221225794\<rparr>"

definition launch :: "os \<Rightarrow> popen \<Rightarrow> popen io" where
  "launch os self =
     do_execute_child os self (CmdList [''jupyterhub-singleuser'', ''--port=8888'']) None False []
       (Some ''C:/hub'') None None 0 False (-1) (-1) (-1)"

definition launch_args :: "os \<Rightarrow> popen \<Rightarrow> cp_args" where
  "launch_args os self =
     create_args os self (CmdList [''jupyterhub-singleuser'', ''--port=8888'']) None False
       (Some ''C:/hub'') None None 0 False (-1) (-1) (-1)"

text \<open>
  In \<open>denied_os\<close> the creation of the process is refused with the error 5 of Windows,
  which pywin32 raises as a \<open>pywintypes.error\<close>, and \<open>shutil.which\<close> finds the
  command; in \<open>close_fails_os\<close> closing the handle 4 and detaching the token 7 raise; in
  \<open>wait_fails_os\<close> the wait on the process handle raises; in
  \<open>thread_close_fails_os\<close> every \<open>CloseHandle\<close> fails. \<open>env_kwargs_spawner\<close> is
  configured with an \<open>env\<close> entry in \<open>popen_kwargs\<close>.
\<close>

definition denied_os :: os where
  "denied_os =
     quiet_os\<lparr>raises := (\<lambda>c. if is_create_call c
                               then Some (Exception ''(5, CreateProcessAsUser, Access is denied.)'')
                               else None),
               which := (\<lambda>c. if c = ''jupyterhub-singleuser''
                               then Some ''C:/Python/Scripts/jupyterhub-singleuser.exe''
                               else None)\<rparr>"

definition close_fails_os :: os where
  "close_fails_os =
     quiet_os\<lparr>raises := (\<lambda>c. if c = HandleClose 4 \<or> c = TokenDetach 7
                               then Some (Exception ''The handle is invalid'') else None)\<rparr>"

definition wait_fails_os :: os where
  "wait_fails_os =
     quiet_os\<lparr>raises := (\<lambda>c. if c = WaitForSingleObject 100 1000
                               then Some (Exception ''wait failed'') else None)\<rparr>"

definition thread_close_fails_os :: os where
  "thread_close_fails_os = quiet_os\<lparr>closehandle_result := (\<lambda>h. False)\<rparr>"

definition env_kwargs_spawner :: spawner where
  "env_kwargs_spawner =
     spawner0\<lparr>popen_kwargs := no_kwargs\<lparr>kw_env := Some (Some [''PATH'' \<mapsto> ''C:/other''])\<rparr>\<rparr>"

text \<open>
  The same launch with the three streams redirected to the handles 3, 4 and 5, and the
  arguments of its \<open>CreateProcessAsUser\<close> call.
\<close>

definition piped_launch :: "os \<Rightarrow> popen \<Rightarrow> popen io" where
  "piped_launch os self =
     do_execute_child os self (CmdList [''jupyterhub-singleuser'', ''--port=8888'']) None False []
       (Some ''C:/hub'') None None 0 False 3 4 5"

definition piped_launch_args :: "os \<Rightarrow> popen \<Rightarrow> cp_args" where
  "piped_launch_args os self =
     create_args os self (CmdList [''jupyterhub-singleuser'', ''--port=8888'']) None False
       (Some ''C:/hub'') None None 0 False 3 4 5"

text \<open>The same operating system under CPython 3.11.\<close>

definition py311_os :: os where
  "py311_os = quiet_os\<lparr>version_info := (3, 11)\<rparr>"

section \<open>The access masks\<close>

lemma mask_values:
  "GENERIC_ACCESS = 0xF0000000" "WINSTA_ALL = 0xF037F" "DESKTOP_ALL = 0xF01FF"
  by (simp_all add: GENERIC_ACCESS_def WINSTA_ALL_def DESKTOP_ALL_def
      GENERIC_READ_def GENERIC_WRITE_def GENERIC_EXECUTE_def GENERIC_ALL_def
      DELETE_def READ_CONTROL_def WRITE_DAC_def WRITE_OWNER_def
      WINSTA_ENUMDESKTOPS_def WINSTA_READATTRIBUTES_def WINSTA_ACCESSCLIPBOARD_def
      WINSTA_CREATEDESKTOP_def WINSTA_WRITEATTRIBUTES_def WINSTA_ACCESSGLOBALATOMS_def
      WINSTA_EXITWINDOWS_def WINSTA_ENUMERATE_def WINSTA_READSCREEN_def
      DESKTOP_READOBJECTS_def DESKTOP_CREATEWINDOW_def DESKTOP_CREATEMENU_def
      DESKTOP_HOOKCONTROL_def DESKTOP_JOURNALRECORD_def DESKTOP_JOURNALPLAYBACK_def
      DESKTOP_ENUMERATE_def DESKTOP_WRITEOBJECTS_def DESKTOP_SWITCHDESKTOP_def)

section \<open>The grant appends to the lists that are there\<close>



lemma logger_dacl [simp]: "dacl (logger l m w) = dacl w"
  by (simp add: logger_def)





section \<open>The standard handles in the startup parameters\<close>

lemma startup_shell_std [simp]:
  "hStdInput (startup_shell shell si) = hStdInput si"
  "hStdOutput (startup_shell shell si) = hStdOutput si"
  "hStdError (startup_shell shell si) = hStdError si"
  "dwFlags (startup_shell shell si) AND STARTF_USESTDHANDLES = dwFlags si AND STARTF_USESTDHANDLES"
  by (simp_all add: startup_shell_def STARTF_USESTDHANDLES_def STARTF_USESHOWWINDOW_def
      bit.conj_disj_distrib2)

lemma or_and_same: "(x OR m) AND m = (m :: 32 word)"
  by (simp add: bit.conj_disj_distrib2 and.commute)
  

text \<open>
  What lines 300 to 306 do for any three handles: the flag \<open>STARTF_USESTDHANDLES\<close> is
  set and the handles are stored when none of them is \<open>-1\<close>; otherwise the step leaves
  the startup parameters as they were given. The request for a hidden window that follows
  changes neither the flag nor the handles.
\<close>

lemma startup_handles_cases:
  "(if p2cread \<noteq> -1 \<and> c2pwrite \<noteq> -1 \<and> errwrite \<noteq> -1
    then dwFlags (startup_shell shell (startup_handles startupinfo p2cread c2pwrite errwrite))
           AND STARTF_USESTDHANDLES = STARTF_USESTDHANDLES
       \<and> hStdInput (startup_shell shell (startup_handles startupinfo p2cread c2pwrite errwrite))
           = Some p2cread
       \<and> hStdOutput (startup_shell shell (startup_handles startupinfo p2cread c2pwrite errwrite))
           = Some c2pwrite
       \<and> hStdError (startup_shell shell (startup_handles startupinfo p2cread c2pwrite errwrite))
           = Some errwrite
    else startup_handles startupinfo p2cread c2pwrite errwrite
           = (case startupinfo of None \<Rightarrow> STARTUPINFO | Some s \<Rightarrow> s))"
  by (simp add: startup_handles_def use_std_handles_def Let_def or_and_same)

lemma cp_startupinfo_create_args:
  "cp_startupinfo (create_args os self args executable close_fds cwd env startupinfo
                     creationflags shell p2cread c2pwrite errwrite)
     = startup_shell shell (startup_handles startupinfo p2cread c2pwrite errwrite)"
  by (simp add: create_args_def)

text \<open>
  C5. The three handles are those that \<open>Popen._get_handles\<close> made. When a stream is
  redirected, that is, when one of the handles is not \<open>-1\<close>, the startup parameters
  that \<open>CreateProcessAsUser\<close> gets have the flag \<open>STARTF_USESTDHANDLES\<close> set and
  hold the three handles. When no stream is redirected the startup parameters are those
  that were given, with the request for a hidden window when \<open>shell\<close> is true: with no
  startup parameters given, the flag is clear and no handle is stored, so that the child
  has the streams of the launcher.
\<close>

theorem std_handles_wired_when_redirected:
  assumes "from_get_handles (p2cread, c2pwrite, errwrite)"
  shows
  "(let si = cp_startupinfo (create_args os self args executable close_fds cwd env startupinfo
                               creationflags shell p2cread c2pwrite errwrite)
    in if p2cread \<noteq> -1 \<or> c2pwrite \<noteq> -1 \<or> errwrite \<noteq> -1
       then dwFlags si AND STARTF_USESTDHANDLES = STARTF_USESTDHANDLES
          \<and> hStdInput si = Some p2cread
          \<and> hStdOutput si = Some c2pwrite
          \<and> hStdError si = Some errwrite
       else si = startup_shell shell (case startupinfo of None \<Rightarrow> STARTUPINFO | Some s \<Rightarrow> s)
          \<and> (startupinfo = None \<longrightarrow>
                dwFlags si AND STARTF_USESTDHANDLES = 0
              \<and> hStdInput si = None \<and> hStdOutput si = None \<and> hStdError si = None))"
proof (cases "p2cread \<noteq> -1 \<or> c2pwrite \<noteq> -1 \<or> errwrite \<noteq> -1")
  case True
  with assms have all: "p2cread \<noteq> -1 \<and> c2pwrite \<noteq> -1 \<and> errwrite \<noteq> -1"
    by (auto simp: from_get_handles_def)
  from startup_handles_cases [of p2cread c2pwrite errwrite shell startupinfo] all True
  show ?thesis
    unfolding Let_def cp_startupinfo_create_args by simp
next
  case False
  then have none: "\<not> (p2cread \<noteq> -1 \<and> c2pwrite \<noteq> -1 \<and> errwrite \<noteq> -1)" by simp
  from startup_handles_cases [of p2cread c2pwrite errwrite shell startupinfo] none
  have e: "startup_handles startupinfo p2cread c2pwrite errwrite
           = (case startupinfo of None \<Rightarrow> STARTUPINFO | Some s \<Rightarrow> s)"
    by simp
  have z: "dwFlags (startup_shell shell STARTUPINFO) AND STARTF_USESTDHANDLES = 0"
    "hStdInput STARTUPINFO = None" "hStdOutput STARTUPINFO = None" "hStdError STARTUPINFO = None"
    by (simp_all add: STARTUPINFO_def)
  show ?thesis
    unfolding Let_def cp_startupinfo_create_args e using False z by simp
qed

theorem std_handles_wired_when_redirected_witness:
  "dwFlags (cp_startupinfo (piped_launch_args quiet_os popen0)) AND STARTF_USESTDHANDLES
        = STARTF_USESTDHANDLES
   \<and> hStdInput (cp_startupinfo (piped_launch_args quiet_os popen0)) = Some 3
   \<and> hStdOutput (cp_startupinfo (piped_launch_args quiet_os popen0)) = Some 4
   \<and> hStdError (cp_startupinfo (piped_launch_args quiet_os popen0)) = Some 5
   \<and> dwFlags (cp_startupinfo (launch_args quiet_os popen0)) AND STARTF_USESTDHANDLES = 0
   \<and> hStdInput (cp_startupinfo (launch_args quiet_os popen0)) = None
   \<and> hStdOutput (cp_startupinfo (launch_args quiet_os popen0)) = None
   \<and> hStdError (cp_startupinfo (launch_args quiet_os popen0)) = None"
proof -
  have h: "from_get_handles (3, 4, 5)" "from_get_handles (-1, -1, -1)"
    by (simp_all add: from_get_handles_def)
  note a = std_handles_wired_when_redirected [OF h(1), where os = quiet_os and self = popen0
      and args = "CmdList [''jupyterhub-singleuser'', ''--port=8888'']" and executable = None
      and close_fds = False and cwd = "Some ''C:/hub''" and env = None and startupinfo = None
      and creationflags = 0 and shell = False, folded piped_launch_args_def]
  note b = std_handles_wired_when_redirected [OF h(2), where os = quiet_os and self = popen0
      and args = "CmdList [''jupyterhub-singleuser'', ''--port=8888'']" and executable = None
      and close_fds = False and cwd = "Some ''C:/hub''" and env = None and startupinfo = None
      and creationflags = 0 and shell = False, folded launch_args_def]
  have a': "dwFlags (cp_startupinfo (piped_launch_args quiet_os popen0)) AND STARTF_USESTDHANDLES
        = STARTF_USESTDHANDLES
   \<and> hStdInput (cp_startupinfo (piped_launch_args quiet_os popen0)) = Some 3
   \<and> hStdOutput (cp_startupinfo (piped_launch_args quiet_os popen0)) = Some 4
   \<and> hStdError (cp_startupinfo (piped_launch_args quiet_os popen0)) = Some 5"
    using a unfolding Let_def by simp
  have "(-1 :: int) \<noteq> -1 \<or> (-1 :: int) \<noteq> -1 \<or> (-1 :: int) \<noteq> -1 \<longleftrightarrow> False" by simp
  note b' = b [unfolded Let_def this if_False, THEN conjunct2, rule_format, OF refl]
  from a' b' show ?thesis by blast
qed

section \<open>The environment of the child\<close>



lemma start_user_env_env:
  "snd (fst (start_user_env os self tok env w)) =
     (if truthy tok \<and> raises os (CreateEnvironmentBlock tok) = None
      then env ++ profile_env os else env)"
  by (auto simp: start_user_env_def oscall_def Let_def split: option.splits)



section \<open>The working directory\<close>

lemma invoke_fs [simp]: "fs (invoke c w) = fs w"
  by (simp add: invoke_def)

lemma logger_fs [simp]: "fs (logger l m w) = fs w"
  by (simp add: logger_def)

lemma oscall_fs [simp]: "fs (snd (oscall os c w)) = fs w"
  by (simp add: oscall_def split: option.splits)

lemma mkdtemp_loop_fresh:
  "mkdtemp_loop os names w = (Inr d, w') \<Longrightarrow>
     d \<in> set names \<and> fs w d = None \<and> fs w' d = Some Dir"
proof (induction names arbitrary: w)
  case Nil
  then show ?case by simp
next
  case (Cons f names)
  show ?case
  proof (cases "fs w f = None")
    case True
    with Cons.prems show ?thesis
      by (auto simp: oscall_def split: option.splits)
  next
    case False
    with Cons.prems have "mkdtemp_loop os names (invoke (Mkdir f) w) = (Inr d, w')"
      by simp
    from Cons.IH [OF this] show ?thesis by simp
  qed
qed

lemma mkdtemp_loop_returns:
  "\<exists>d\<in>set names. fs w d = None \<Longrightarrow> \<forall>d. raises os (Mkdir d) = None \<Longrightarrow>
     \<exists>d. fst (mkdtemp_loop os names w) = Inr d"
proof (induction names arbitrary: w)
  case Nil
  then show ?case by simp
next
  case (Cons f names)
  show ?case
  proof (cases "fs w f = None")
    case True
    with Cons.prems(2) show ?thesis by (simp add: oscall_def)
  next
    case False
    with Cons.prems(1) have "\<exists>d\<in>set names. fs (invoke (Mkdir f) w) d = None"
      by auto
    from Cons.IH [OF this Cons.prems(2)] False show ?thesis by simp
  qed
qed

lemma isdir_logger [simp]: "isdir (logger l m w) p = isdir w p"
  by (simp add: isdir_def)

lemma dwd_configured:
  "notebook_dir self \<noteq> [] \<Longrightarrow> isdir w (notebook_dir self) \<Longrightarrow>
     determine_working_directory os self user_env w = (Inr (notebook_dir self), w)"
  by (simp add: determine_working_directory_def)

lemma dwd_profile:
  "\<not> (notebook_dir self \<noteq> [] \<and> isdir w (notebook_dir self)) \<Longrightarrow>
   user_env = Some ue \<Longrightarrow> ue ''USERPROFILE'' = Some p \<Longrightarrow> p \<noteq> [] \<Longrightarrow> isdir w p \<Longrightarrow>
     fst (determine_working_directory os self user_env w) = Inr p"
  by (auto simp: determine_working_directory_def userprofile_def Let_def)

lemma dwd_cwd:
  "\<not> (notebook_dir self \<noteq> [] \<and> isdir w (notebook_dir self)) \<Longrightarrow>
   profile_dir w user_env = None \<Longrightarrow> raises os Getcwd = None \<Longrightarrow>
     fst (determine_working_directory os self user_env w) = Inr (getcwd_result os)"
  by (auto simp: determine_working_directory_def profile_dir_def Let_def oscall_def
      split: option.splits if_splits)

lemma dwd_temp:
  assumes "\<not> (notebook_dir self \<noteq> [] \<and> isdir w (notebook_dir self))"
    and "profile_dir w user_env = None" and "raises os Getcwd = Some e"
    and "determine_working_directory os self user_env w = (Inr d, w')"
  shows "d \<in> set (temp_names os) \<and> fs w d = None \<and> isdir w' d"
proof -
  let ?w1 = "if notebook_dir self \<noteq> [] then logger Warning (NotebookDirMissing (notebook_dir self)) w else w"
  let ?w3 = "logger Warning (GetcwdFailed e) (?w1\<lparr>trace := trace ?w1 @ [Call Getcwd]\<rparr>)"
  from assms obtain w4 where m: "mkdtemp_loop os (temp_names os) ?w3 = (Inr d, w4)"
    and w': "w' = logger Warning (UsingTempDir d) w4"
    by (auto simp: determine_working_directory_def profile_dir_def Let_def oscall_def bind_def
        mkdtemp_def split: option.splits if_splits prod.splits sum.splits)
  from mkdtemp_loop_fresh [OF m] w' show ?thesis
    by (auto simp: isdir_def logger_def split: if_splits)
qed

lemma dwd_temp_returns:
  assumes "\<not> (notebook_dir self \<noteq> [] \<and> isdir w (notebook_dir self))"
    and "profile_dir w user_env = None" and "raises os Getcwd = Some e"
    and "\<exists>d\<in>set (temp_names os). fs w d = None" and "\<forall>d. raises os (Mkdir d) = None"
  shows "\<exists>d. fst (determine_working_directory os self user_env w) = Inr d"
proof -
  let ?w1 = "if notebook_dir self \<noteq> [] then logger Warning (NotebookDirMissing (notebook_dir self)) w else w"
  let ?w3 = "logger Warning (GetcwdFailed e) (?w1\<lparr>trace := trace ?w1 @ [Call Getcwd]\<rparr>)"
  have "\<exists>d\<in>set (temp_names os). fs ?w3 d = None"
    using assms(4) by (auto simp: logger_def)
  from mkdtemp_loop_returns [OF this assms(5)]
  obtain d where "fst (mkdtemp_loop os (temp_names os) ?w3) = Inr d" by blast
  with assms(1-3) show ?thesis
    by (auto simp: determine_working_directory_def profile_dir_def Let_def oscall_def bind_def
        mkdtemp_def split: option.splits if_splits prod.splits sum.splits)
qed

text \<open>
  C7. A configured \<open>notebook_dir\<close> that is a directory is returned, and nothing else is
  looked at. Otherwise a non-empty \<open>USERPROFILE\<close> of the user environment that is a
  directory is returned. Otherwise the current directory is returned when \<open>os.getcwd\<close>
  does not raise. When it raises, a directory that \<open>start\<close> gets back from \<open>mkdtemp\<close>
  is one of the candidate names, did not exist before and is a directory afterwards; and
  \<open>mkdtemp\<close> does return one when some candidate name is free and \<open>os.mkdir\<close> does
  not raise.
\<close>

theorem working_directory_priority:
  "(notebook_dir self \<noteq> [] \<and> isdir w (notebook_dir self) \<longrightarrow>
      determine_working_directory os self user_env w = (Inr (notebook_dir self), w))
   \<and> (\<not> (notebook_dir self \<noteq> [] \<and> isdir w (notebook_dir self)) \<longrightarrow>
        (\<forall>p. userprofile user_env = Some p \<and> isdir w p \<longrightarrow>
           fst (determine_working_directory os self user_env w) = Inr p)
      \<and> ((\<forall>p. userprofile user_env = Some p \<longrightarrow> \<not> isdir w p) \<longrightarrow>
           (raises os Getcwd = None \<longrightarrow>
              fst (determine_working_directory os self user_env w) = Inr (getcwd_result os))
         \<and> (raises os Getcwd \<noteq> None \<longrightarrow>
              (\<forall>d w'. determine_working_directory os self user_env w = (Inr d, w') \<longrightarrow>
                 d \<in> set (temp_names os) \<and> fs w d = None \<and> isdir w' d)
            \<and> ((\<exists>d\<in>set (temp_names os). fs w d = None) \<and> (\<forall>d. raises os (Mkdir d) = None) \<longrightarrow>
                 (\<exists>d. fst (determine_working_directory os self user_env w) = Inr d)))))"
proof (intro conjI impI allI)
  assume "notebook_dir self \<noteq> [] \<and> isdir w (notebook_dir self)"
  then show "determine_working_directory os self user_env w = (Inr (notebook_dir self), w)"
    by (simp add: dwd_configured)
next
  fix p
  assume n: "\<not> (notebook_dir self \<noteq> [] \<and> isdir w (notebook_dir self))"
    and "userprofile user_env = Some p \<and> isdir w p"
  then show "fst (determine_working_directory os self user_env w) = Inr p"
    by (auto simp: determine_working_directory_def Let_def)
next
  assume n: "\<not> (notebook_dir self \<noteq> [] \<and> isdir w (notebook_dir self))"
    and p: "\<forall>p. userprofile user_env = Some p \<longrightarrow> \<not> isdir w p"
  then have pd: "profile_dir w user_env = None"
    by (auto simp: profile_dir_def split: option.splits)
  {
    assume "raises os Getcwd = None"
    from dwd_cwd [OF n pd this]
    show "fst (determine_working_directory os self user_env w) = Inr (getcwd_result os)" .
  next
    assume "raises os Getcwd \<noteq> None"
    then obtain e where e: "raises os Getcwd = Some e" by auto
    {
      fix d w'
      assume "determine_working_directory os self user_env w = (Inr d, w')"
      from dwd_temp [OF n pd e this]
      show "d \<in> set (temp_names os)" and "fs w d = None" and "isdir w' d" by simp_all
    next
      assume "(\<exists>d\<in>set (temp_names os). fs w d = None) \<and> (\<forall>d. raises os (Mkdir d) = None)"
      then show "\<exists>d. fst (determine_working_directory os self user_env w) = Inr d"
        using dwd_temp_returns [OF n pd e] by blast
    }
  }
qed

theorem working_directory_priority_witness:
  "determine_working_directory quiet_os (spawner0\<lparr>notebook_dir := ''C:/Users/ann''\<rparr>)
     (Some (profile_env quiet_os)) world0 = (Inr ''C:/Users/ann'', world0)
   \<and> fst (determine_working_directory quiet_os (spawner0\<lparr>notebook_dir := ''C:/missing''\<rparr>)
            (Some (profile_env quiet_os)) world0) = Inr ''C:/Users/ann''
   \<and> fst (determine_working_directory quiet_os spawner0 None world0) = Inr ''C:/hub''
   \<and> (\<exists>d. fst (determine_working_directory getcwd_fails_os spawner0 None world0) = Inr d)"
proof (intro conjI)
  have i: "isdir world0 ''C:/Users/ann''" "\<not> isdir world0 ''C:/missing''"
    by (simp_all add: isdir_def world0_def)
  have u: "userprofile (Some (profile_env quiet_os)) = Some ''C:/Users/ann''"
    "userprofile None = None"
    by (simp_all add: userprofile_def quiet_os_def)
  have n1: "notebook_dir (spawner0\<lparr>notebook_dir := ''C:/Users/ann''\<rparr>) = ''C:/Users/ann''"
    and n2: "notebook_dir (spawner0\<lparr>notebook_dir := ''C:/missing''\<rparr>) = ''C:/missing''"
    and n3: "notebook_dir spawner0 = []"
    by (simp_all add: spawner0_def)
  note t1 = working_directory_priority [where self = "spawner0\<lparr>notebook_dir := ''C:/Users/ann''\<rparr>"
        and w = world0 and os = quiet_os and user_env = "Some (profile_env quiet_os)"]
  from t1 [THEN conjunct1] i(1)
  show "determine_working_directory quiet_os (spawner0\<lparr>notebook_dir := ''C:/Users/ann''\<rparr>)
     (Some (profile_env quiet_os)) world0 = (Inr ''C:/Users/ann'', world0)"
    unfolding n1 by simp
  note t2 = working_directory_priority [where self = "spawner0\<lparr>notebook_dir := ''C:/missing''\<rparr>"
        and w = world0 and os = quiet_os and user_env = "Some (profile_env quiet_os)"]
  from t2 [THEN conjunct2] i u(1)
  show "fst (determine_working_directory quiet_os (spawner0\<lparr>notebook_dir := ''C:/missing''\<rparr>)
            (Some (profile_env quiet_os)) world0) = Inr ''C:/Users/ann''"
    unfolding n2 by blast
  have g: "raises quiet_os Getcwd = None" "getcwd_result quiet_os = ''C:/hub''"
    by (simp_all add: quiet_os_def)
  note t3 = working_directory_priority [where self = spawner0
        and w = world0 and os = quiet_os and user_env = None]
  from t3 [THEN conjunct2] u(2) g
  show "fst (determine_working_directory quiet_os spawner0 None world0) = Inr ''C:/hub''"
    unfolding n3 by simp
  have f: "raises getcwd_fails_os Getcwd \<noteq> None" "\<forall>d. raises getcwd_fails_os (Mkdir d) = None"
    by (simp_all add: getcwd_fails_os_def)
  have f3: "\<exists>d\<in>set (temp_names getcwd_fails_os). fs world0 d = None"
    by (simp add: quiet_os_def getcwd_fails_os_def world0_def)
  note t4 = working_directory_priority [where self = spawner0
        and w = world0 and os = getcwd_fails_os and user_env = None]
  from t4 [THEN conjunct2] u(2) f f3
  show "\<exists>d. fst (determine_working_directory getcwd_fails_os spawner0 None world0) = Inr d"
    unfolding n3 by simp
qed

section \<open>The command line\<close>















lemma concat_singletons: "concat (map (\<lambda>b. [b]) bs) = bs"
  by (induction bs) simp_all


















section \<open>Reasoning about the trace\<close>

lemma emits_only_iff:
  "emits_only P w w' \<longleftrightarrow> (\<exists>evs. trace w' = trace w @ evs \<and> list_all P evs)"
  by (auto simp: emits_only_def emitted_def prefix_def)

lemma emits_only_refl [simp]: "emits_only P w w"
  by (simp add: emits_only_iff)

lemma emits_only_trans:
  "emits_only P w w1 \<Longrightarrow> emits_only P w1 w2 \<Longrightarrow> emits_only P w w2"
  by (auto simp: emits_only_iff)

lemma emits_only_weaken:
  "emits_only P w w' \<Longrightarrow> (\<And>ev. P ev \<Longrightarrow> Q ev) \<Longrightarrow> emits_only Q w w'"
  by (auto simp: emits_only_iff list_all_iff)

lemma emits_onlyD:
  "emits_only P w w' \<Longrightarrow> ev \<in> set (emitted w w') \<Longrightarrow> P ev"
  by (auto simp: emits_only_def list_all_iff)

lemma emitted_append:
  "emits_only P w w1 \<Longrightarrow> emits_only Q w1 w2 \<Longrightarrow> emitted w w2 = emitted w w1 @ emitted w1 w2"
  by (auto simp: emits_only_iff emitted_def)

lemma emitted_self [simp]: "emitted w w = []"
  by (simp add: emitted_def)

lemma emits_only_oscall: "P (Call c) \<Longrightarrow> emits_only P w (snd (oscall os c w))"
  by (simp add: emits_only_iff oscall_def split: option.splits)

lemma emits_only_invoke: "P (Call c) \<Longrightarrow> emits_only P w (invoke c w)"
  by (simp add: emits_only_iff invoke_def)

lemma emits_only_logger: "P (Log l m) \<Longrightarrow> emits_only P w (logger l m w)"
  by (simp add: emits_only_iff logger_def)

lemma emitted_oscall [simp]: "emitted w (snd (oscall os c w)) = [Call c]"
  by (simp add: emitted_def oscall_def split: option.splits)

lemma emitted_invoke [simp]: "emitted w (invoke c w) = [Call c]"
  by (simp add: emitted_def invoke_def)

lemma emitted_logger [simp]: "emitted w (logger l m w) = [Log l m]"
  by (simp add: emitted_def logger_def)

lemma emits_only_bind:
  assumes "\<And>w. emits_only P w (snd (m w))" and "\<And>x w. emits_only P w (snd (f x w))"
  shows "emits_only P w (snd (bind m f w))"
proof (cases "m w")
  case (Pair r w1)
  with assms(1) [of w] have 1: "emits_only P w w1" by simp
  show ?thesis
  proof (cases r)
    case (Inl e)
    with Pair 1 show ?thesis by (simp add: bind_def)
  next
    case (Inr x)
    with Pair have "snd (bind m f w) = snd (f x w1)" by (simp add: bind_def)
    with emits_only_trans [OF 1 assms(2) [of w1 x]] show ?thesis by simp
  qed
qed

lemma emits_only_ret [simp]: "emits_only P w (snd (ret x w))"
  by (simp add: ret_def)

subsection \<open>What the grant can add to the trace\<close>

lemma set_dacl_emits:
  "P (Call (SetSecurityInfo ob)) \<Longrightarrow> emits_only P w (snd (set_dacl os ob acl w))"
  by (simp add: emits_only_iff set_dacl_def oscall_def split: option.splits)

lemma add_ace_emits:
  "P (Call (AddAccessAllowedAce ob m s)) \<Longrightarrow> emits_only P w (snd (add_ace os ob acl m s w))"
  unfolding add_ace_def by (intro emits_only_bind emits_only_oscall emits_only_ret)

lemma setup_sacl_try_emits:
  assumes "\<And>c. is_grant_call c \<Longrightarrow> P (Call c)"
  shows "emits_only P w (snd (setup_sacl_try os sid w))"
  unfolding setup_sacl_try_def
  by (intro emits_only_bind emits_only_oscall set_dacl_emits add_ace_emits assms)
     (simp_all add: GetSecurityDescriptorDacl_def)

lemma setup_sacl_emits:
  assumes "\<And>c. is_grant_call c \<Longrightarrow> P (Call c)" and "\<And>l m. P (Log l m)"
  shows "emits_only P w (snd (setup_sacl os sid w))"
proof (cases "setup_sacl_try os sid w")
  case (Pair r w1)
  with setup_sacl_try_emits [of P w os sid] assms(1) have 1: "emits_only P w w1" by simp
  show ?thesis
    using Pair emits_only_trans [OF 1 emits_only_logger [of P], OF assms(2)] 1
    by (cases r) (simp_all add: setup_sacl_def)
qed

lemma grant_try_emits:
  assumes "\<And>c. is_grant_call c \<Longrightarrow> P (Call c)" and "\<And>l m. P (Log l m)"
  shows "emits_only P w (snd (grant_try os tok w))"
  unfolding grant_try_def
  by (intro emits_only_bind emits_only_oscall setup_sacl_emits assms) simp

lemma grant_access_emits:
  assumes "\<And>c. is_grant_call c \<Longrightarrow> P (Call c)" and "\<And>l m. P (Log l m)"
  shows "emits_only P w (grant_access os tok w)"
proof (cases "grant_try os tok w")
  case (Pair r w1)
  with grant_try_emits [of P w os tok] assms have 1: "emits_only P w w1" by simp
  show ?thesis
    using Pair emits_only_trans [OF 1 emits_only_logger [of P], OF assms(2)] 1
    by (cases r) (simp_all add: grant_access_def)
qed

section \<open>The paths of the creation and its liveness check\<close>

lemma cc_raises:
  "raises os (CreateProcessAsUser a) = Some e \<Longrightarrow>
     create_and_check os tok a w = (Inl e, w\<lparr>trace := trace w @ [Call (CreateProcessAsUser a)]\<rparr>)"
  by (simp add: create_and_check_def bind_def oscall_def)

lemma cc_last_error:
  "raises os (CreateProcessAsUser a) = None \<Longrightarrow> last_error os \<noteq> 0 \<Longrightarrow>
     create_and_check os tok a w =
       (Inr (created os),
        w\<lparr>trace := trace w @ [Call (CreateProcessAsUser a), Call GetLastError,
            Log Error (CreateProcessLastError (last_error os) (cp_executable a) (cp_cmdline a) tok)]\<rparr>)"
  by (cases "created os")
     (simp add: create_and_check_def bind_def oscall_def invoke_def logger_def Let_def)

lemma cc_wait_raises:
  "raises os (CreateProcessAsUser a) = None \<Longrightarrow> last_error os = 0 \<Longrightarrow>
   raises os (WaitForSingleObject (fst (created os)) 1000) = Some e \<Longrightarrow>
     create_and_check os tok a w =
       (Inl e,
        w\<lparr>trace := trace w @ [Call (CreateProcessAsUser a), Call GetLastError,
            Call (WaitForSingleObject (fst (created os)) 1000)]\<rparr>)"
  by (cases "created os")
     (simp add: create_and_check_def bind_def oscall_def invoke_def logger_def Let_def)

lemma cc_running:
  "raises os (CreateProcessAsUser a) = None \<Longrightarrow> last_error os = 0 \<Longrightarrow>
   raises os (WaitForSingleObject (fst (created os)) 1000) = None \<Longrightarrow>
   wait_result os \<noteq> WAIT_OBJECT_0 \<Longrightarrow>
     create_and_check os tok a w =
       (Inr (created os),
        w\<lparr>trace := trace w @ [Call (CreateProcessAsUser a), Call GetLastError,
            Call (WaitForSingleObject (fst (created os)) 1000)]\<rparr>)"
  by (cases "created os")
     (simp add: create_and_check_def bind_def ret_def oscall_def invoke_def logger_def Let_def)

lemma cc_exit_raises:
  "raises os (CreateProcessAsUser a) = None \<Longrightarrow> last_error os = 0 \<Longrightarrow>
   raises os (WaitForSingleObject (fst (created os)) 1000) = None \<Longrightarrow>
   wait_result os = WAIT_OBJECT_0 \<Longrightarrow>
   raises os (GetExitCodeProcess (fst (created os))) = Some e \<Longrightarrow>
     create_and_check os tok a w =
       (Inl e,
        w\<lparr>trace := trace w @ [Call (CreateProcessAsUser a), Call GetLastError,
            Call (WaitForSingleObject (fst (created os)) 1000),
            Call (GetExitCodeProcess (fst (created os)))]\<rparr>)"
  by (cases "created os")
     (simp add: create_and_check_def bind_def ret_def oscall_def invoke_def logger_def Let_def)

lemma cc_exited:
  "raises os (CreateProcessAsUser a) = None \<Longrightarrow> last_error os = 0 \<Longrightarrow>
   raises os (WaitForSingleObject (fst (created os)) 1000) = None \<Longrightarrow>
   wait_result os = WAIT_OBJECT_0 \<Longrightarrow>
   raises os (GetExitCodeProcess (fst (created os))) = None \<Longrightarrow>
     create_and_check os tok a w =
       (Inr (created os),
        w\<lparr>trace := trace w @ [Call (CreateProcessAsUser a), Call GetLastError,
            Call (WaitForSingleObject (fst (created os)) 1000),
            Call (GetExitCodeProcess (fst (created os)))]
            @ (if exit_code os \<noteq> STILL_ACTIVE
               then [Log Error (ExitedImmediately (exit_code os) (cp_executable a) (cp_cmdline a) tok)]
               else [])\<rparr>)"
  by (cases "created os")
     (simp add: create_and_check_def bind_def ret_def oscall_def invoke_def logger_def Let_def)

lemma cc_cases:
  obtains (raises) e where "raises os (CreateProcessAsUser a) = Some e"
  | (last_error) "raises os (CreateProcessAsUser a) = None" "last_error os \<noteq> 0"
  | (wait_raises) e where "raises os (CreateProcessAsUser a) = None" "last_error os = 0"
      "raises os (WaitForSingleObject (fst (created os)) 1000) = Some e"
  | (running) "raises os (CreateProcessAsUser a) = None" "last_error os = 0"
      "raises os (WaitForSingleObject (fst (created os)) 1000) = None"
      "wait_result os \<noteq> WAIT_OBJECT_0"
  | (exit_raises) e where "raises os (CreateProcessAsUser a) = None" "last_error os = 0"
      "raises os (WaitForSingleObject (fst (created os)) 1000) = None"
      "wait_result os = WAIT_OBJECT_0"
      "raises os (GetExitCodeProcess (fst (created os))) = Some e"
  | (exited) "raises os (CreateProcessAsUser a) = None" "last_error os = 0"
      "raises os (WaitForSingleObject (fst (created os)) 1000) = None"
      "wait_result os = WAIT_OBJECT_0"
      "raises os (GetExitCodeProcess (fst (created os))) = None"
  by (cases "raises os (CreateProcessAsUser a)";
      cases "raises os (WaitForSingleObject (fst (created os)) 1000)";
      cases "raises os (GetExitCodeProcess (fst (created os)))") auto

lemma create_and_check_emits:
  assumes "P (Call (CreateProcessAsUser a))"
    and "\<And>c. \<not> is_create_call c \<Longrightarrow> \<not> is_grant_call c \<Longrightarrow> P (Call c)"
    and "\<And>l m. P (Log l m)"
  shows "emits_only P w (snd (create_and_check os tok a w))"
  by (cases rule: cc_cases [of os a])
     (simp_all add: cc_raises cc_last_error cc_wait_raises cc_running cc_exit_raises cc_exited
        emits_only_iff assms)

lemma create_and_check_first:
  "\<exists>evs. trace (snd (create_and_check os tok a w)) = trace w @ Call (CreateProcessAsUser a) # evs"
  by (cases rule: cc_cases [of os a])
     (simp_all add: cc_raises cc_last_error cc_wait_raises cc_running cc_exit_raises cc_exited)

subsection \<open>Closing the pipe ends\<close>

lemma close_one_emits:
  assumes "\<And>c. is_close_call c \<Longrightarrow> P (Call c)" and "\<And>l m. P (Log l m)"
  shows "emits_only P w (close_one os hn w)"
  by (auto simp: close_one_def oscall_def logger_def emits_only_iff assms split: option.splits)

lemma close_pipe_handles_emits:
  assumes "\<And>c. is_close_call c \<Longrightarrow> P (Call c)" and "\<And>l m. P (Log l m)"
  shows "emits_only P w (close_pipe_handles os self p2cread c2pwrite errwrite w)"
proof -
  note c = close_one_emits [of P, OF assms]
  let ?w1 = "close_one os (errwrite, ''errwrite'')
             (close_one os (c2pwrite, ''c2pwrite'') (close_one os (p2cread, ''p2cread'') w))"
  have 3: "emits_only P w ?w1"
    by (rule emits_only_trans [OF emits_only_trans [OF c c] c])
  have 4: "emits_only P w1
             (case devnull self of
                None \<Rightarrow> w1
              | Some fd \<Rightarrow>
                  (case oscall os (OsClose fd) w1 of
                     (Inl exc, w2) \<Rightarrow> logger Warning (CloseDevnullFailed exc) w2
                   | (Inr _, w2) \<Rightarrow> w2))" for w1
    by (auto simp: oscall_def logger_def emits_only_iff assms split: option.splits)
  have f: "fold (close_one os) [(p2cread, ''p2cread''), (c2pwrite, ''c2pwrite''),
             (errwrite, ''errwrite'')] w = ?w1"
    by simp
  from emits_only_trans [OF 3 4] show ?thesis
    unfolding close_pipe_handles_def Let_def f .
qed

lemma close_one_attempt:
  "fst hn \<noteq> -1 \<Longrightarrow>
     emitted w (close_one os hn w) =
       Call (HandleClose (fst hn)) #
         (case raises os (HandleClose (fst hn)) of
            None \<Rightarrow> [] | Some e \<Rightarrow> [Log Warning (CloseFailed (snd hn) e)])"
  by (simp add: close_one_def oscall_def logger_def emitted_def split: option.splits)

lemma close_one_skip: "fst hn = -1 \<Longrightarrow> close_one os hn w = w"
  by (simp add: close_one_def)

lemma emitted_trace_upd [simp]: "emitted w (w\<lparr>trace := trace w @ evs\<rparr>) = evs"
  by (simp add: emitted_def)

lemma emits_only_trace_upd [simp]:
  "emits_only P w (w\<lparr>trace := trace w @ evs\<rparr>) = list_all P evs"
  by (simp add: emits_only_def)

text \<open>What closing one pipe end adds to the trace.\<close>

lemma close_one_emitted:
  "emitted w (close_one os hn w) =
     (if fst hn \<noteq> -1
      then Call (HandleClose (fst hn)) #
             (case raises os (HandleClose (fst hn)) of
                None \<Rightarrow> [] | Some e \<Rightarrow> [Log Warning (CloseFailed (snd hn) e)])
      else [])"
  by (simp add: close_one_def oscall_def logger_def emitted_def split: option.splits)

lemma close_pipe_handles_emitted:
  "emitted w (close_pipe_handles os self p2cread c2pwrite errwrite w) =
     emitted w (close_one os (p2cread, ''p2cread'') w)
     @ emitted w (close_one os (c2pwrite, ''c2pwrite'') w)
     @ emitted w (close_one os (errwrite, ''errwrite'') w)
     @ (case devnull self of
          None \<Rightarrow> []
        | Some fd \<Rightarrow> Call (OsClose fd) #
            (case raises os (OsClose fd) of
               None \<Rightarrow> [] | Some e \<Rightarrow> [Log Warning (CloseDevnullFailed e)]))"
proof -
  have e: "emits_only (\<lambda>_. True) v (close_one os hn v)" for v hn
    by (rule close_one_emits) simp_all
  have i: "emitted v (close_one os hn v) = emitted w (close_one os hn w)" for v hn
    by (simp add: close_one_emitted)
  let ?w1 = "close_one os (p2cread, ''p2cread'') w"
  let ?w2 = "close_one os (c2pwrite, ''c2pwrite'') ?w1"
  let ?w3 = "close_one os (errwrite, ''errwrite'') ?w2"
  have 3: "emitted w ?w3 = emitted w ?w1 @ emitted w (close_one os (c2pwrite, ''c2pwrite'') w)
             @ emitted w (close_one os (errwrite, ''errwrite'') w)"
  proof -
    have 12: "emitted w ?w2 = emitted w ?w1 @ emitted ?w1 ?w2"
      by (rule emitted_append [OF e e])
    have 23: "emitted w ?w3 = emitted w ?w2 @ emitted ?w2 ?w3"
      by (rule emitted_append [OF emits_only_trans [OF e e] e])
    show ?thesis
      by (simp only: 23 12 i [of ?w1] i [of ?w2] append_assoc)
  qed
  have f: "fold (close_one os) [(p2cread, ''p2cread''), (c2pwrite, ''c2pwrite''),
             (errwrite, ''errwrite'')] w = ?w3"
    by simp
  have e3: "emits_only (\<lambda>_. True) w ?w3"
    by (rule emits_only_trans [OF emits_only_trans [OF e e] e])
  let ?w4 = "close_pipe_handles os self p2cread c2pwrite errwrite w"
  have 4: "emits_only (\<lambda>_. True) ?w3 ?w4
           \<and> emitted ?w3 ?w4 =
             (case devnull self of
                None \<Rightarrow> []
              | Some fd \<Rightarrow> Call (OsClose fd) #
                  (case raises os (OsClose fd) of
                     None \<Rightarrow> [] | Some e \<Rightarrow> [Log Warning (CloseDevnullFailed e)]))"
    unfolding close_pipe_handles_def Let_def f
    by (auto simp: oscall_def logger_def emits_only_iff emitted_def split: option.splits)
  from emitted_append [OF e3 conjunct1 [OF 4]] 3 conjunct2 [OF 4] show ?thesis by simp
qed

lemma close_pipe_handles_emitted_indep:
  "emitted v (close_pipe_handles os self p2cread c2pwrite errwrite v) =
   emitted w (close_pipe_handles os self p2cread c2pwrite errwrite w)"
  by (simp add: close_pipe_handles_emitted close_one_emitted)

lemma retain_handle_fst:
  "fst (retain_handle os self hp ht cpid w) =
     (if hp \<noteq> 0 then
        (case raises os (HandleDetach hp) of
           Some e \<Rightarrow> Inl e
         | None \<Rightarrow> Inr (self\<lparr>child_created := True, p_handle := Some hp, p_pid := Some cpid\<rparr>))
      else Inr (self\<lparr>child_created := True\<rparr>))"
  by (simp add: retain_handle_def Let_def bind_def ret_def oscall_def split_beta split: option.splits)

lemma retain_handle_trace:
  "snd (retain_handle os self hp ht cpid w) =
     w\<lparr>trace := trace w @ (if hp \<noteq> 0 then [Call (HandleDetach hp)] else [])
                        @ (if ht \<noteq> 0 then [Call (CloseHandle ht)] else [])\<rparr>"
  by (simp add: retain_handle_def Let_def bind_def ret_def oscall_def invoke_def split_beta
      split: option.splits)

lemma create_and_check_fst:
  "fst (create_and_check os tok a w) = fst (create_and_check os tok a w0)"
  by (cases rule: cc_cases [of os a])
     (simp_all add: cc_raises cc_last_error cc_wait_raises cc_running cc_exit_raises cc_exited)

lemma create_and_check_emitted:
  "emitted w (snd (create_and_check os tok a w)) = emitted w0 (snd (create_and_check os tok a w0))"
  by (cases rule: cc_cases [of os a])
     (simp_all add: cc_raises cc_last_error cc_wait_raises cc_running cc_exit_raises cc_exited)

lemma ext_grant: "ext w (grant_access os tok w)"
  by (rule grant_access_emits) simp_all

lemma ext_cc: "ext w (snd (create_and_check os tok a w))"
  by (rule create_and_check_emits) simp_all

lemma ext_close: "ext w (close_pipe_handles os self p c e w)"
  by (rule close_pipe_handles_emits) simp_all

lemma ext_retain: "ext w (snd (retain_handle os self hp ht cpid w))"
  by (simp add: retain_handle_trace)

lemma ext_logger: "ext w (logger l m w)"
  by (rule emits_only_logger) simp

text \<open>The run of \<open>do_execute_child\<close> in its parts.\<close>

lemma retain_handle_fst_indep:
  "fst (retain_handle os self hp ht cpid w) = fst (retain_handle os self hp ht cpid w0)"
  by (simp add: retain_handle_fst)

lemma dec_unfold:
  assumes "create_and_check os (p_token self)
             (create_args os self args executable close_fds cwd env startupinfo
                creationflags shell p2cread c2pwrite errwrite)
             (grant_access os (p_token self) w) = (r, w2)"
  shows "do_execute_child os self args executable close_fds [] cwd env startupinfo
           creationflags shell p2cread c2pwrite errwrite w =
         (case r of
            Inl exc \<Rightarrow>
              (Inl exc, close_pipe_handles os self p2cread c2pwrite errwrite
                          (logger Error (CreateProcessException exc) w2))
          | Inr (hp, ht, cpid, tid) \<Rightarrow>
              retain_handle os self hp ht cpid
                (close_pipe_handles os self p2cread c2pwrite errwrite w2))"
  using assms by (simp add: do_execute_child_def Let_def split: sum.splits)

lemma dec_fst:
  "fst (do_execute_child os self args executable close_fds [] cwd env startupinfo
          creationflags shell p2cread c2pwrite errwrite w) =
     (case fst (create_and_check os (p_token self)
                 (create_args os self args executable close_fds cwd env startupinfo
                    creationflags shell p2cread c2pwrite errwrite) w) of
        Inl exc \<Rightarrow> Inl exc
      | Inr (hp, ht, cpid, tid) \<Rightarrow> fst (retain_handle os self hp ht cpid w))"
proof -
  let ?a = "create_args os self args executable close_fds cwd env startupinfo
              creationflags shell p2cread c2pwrite errwrite"
  obtain r w2 where cc: "create_and_check os (p_token self) ?a (grant_access os (p_token self) w) = (r, w2)"
    by (cases "create_and_check os (p_token self) ?a (grant_access os (p_token self) w)")
  have r: "fst (create_and_check os (p_token self) ?a w) = r"
    using create_and_check_fst [of os "p_token self" ?a w "grant_access os (p_token self) w"] cc
    by simp
  show ?thesis
    unfolding dec_unfold [OF cc] r
    by (cases r) (auto simp: retain_handle_fst)
qed

lemma dec_emitted:
  assumes "create_and_check os (p_token self)
             (create_args os self args executable close_fds cwd env startupinfo
                creationflags shell p2cread c2pwrite errwrite)
             (grant_access os (p_token self) w) = (r, w2)"
  shows "emitted w (snd (do_execute_child os self args executable close_fds [] cwd env
           startupinfo creationflags shell p2cread c2pwrite errwrite w)) =
         emitted w (grant_access os (p_token self) w)
         @ emitted (grant_access os (p_token self) w) w2
         @ (case r of
              Inl exc \<Rightarrow>
                Log Error (CreateProcessException exc) #
                emitted w (close_pipe_handles os self p2cread c2pwrite errwrite w)
            | Inr (hp, ht, cpid, tid) \<Rightarrow>
                emitted w (close_pipe_handles os self p2cread c2pwrite errwrite w)
                @ (if hp \<noteq> 0 then [Call (HandleDetach hp)] else [])
                @ (if ht \<noteq> 0 then [Call (CloseHandle ht)] else []))"
proof -
  let ?w1 = "grant_access os (p_token self) w"
  have 1: "ext w ?w1" by (rule ext_grant)
  have 2: "ext ?w1 w2" using ext_cc [of ?w1 os "p_token self"] assms by (metis snd_conv)
  have 12: "ext w w2" by (rule emits_only_trans [OF 1 2])
  have e12: "emitted w w2 = emitted w ?w1 @ emitted ?w1 w2"
    by (rule emitted_append [OF 1 2])
  show ?thesis
  proof (cases r)
    case (Inl exc)
    let ?w3 = "logger Error (CreateProcessException exc) w2"
    let ?w4 = "close_pipe_handles os self p2cread c2pwrite errwrite ?w3"
    have 3: "ext w2 ?w3" by (rule ext_logger)
    have 4: "ext ?w3 ?w4" by (rule ext_close)
    have "emitted w ?w4 = emitted w ?w3 @ emitted ?w3 ?w4"
      by (rule emitted_append [OF emits_only_trans [OF 12 3] 4])
    moreover have "emitted w ?w3 = emitted w w2 @ emitted w2 ?w3"
      by (rule emitted_append [OF 12 3])
    ultimately show ?thesis
      unfolding dec_unfold [OF assms]
      using Inl e12 close_pipe_handles_emitted_indep [of ?w3 os self p2cread c2pwrite errwrite w]
      by simp
  next
    case (Inr t)
    obtain hp ht cpid tid where t: "t = (hp, ht, cpid, tid)" by (cases t)
    let ?w3 = "close_pipe_handles os self p2cread c2pwrite errwrite w2"
    let ?w4 = "snd (retain_handle os self hp ht cpid ?w3)"
    have 3: "ext w2 ?w3" by (rule ext_close)
    have 4: "ext ?w3 ?w4" by (rule ext_retain)
    have "emitted w ?w4 = emitted w ?w3 @ emitted ?w3 ?w4"
      by (rule emitted_append [OF emits_only_trans [OF 12 3] 4])
    moreover have "emitted w ?w3 = emitted w w2 @ emitted w2 ?w3"
      by (rule emitted_append [OF 12 3])
    moreover have "emitted ?w3 ?w4 = (if hp \<noteq> 0 then [Call (HandleDetach hp)] else [])
                @ (if ht \<noteq> 0 then [Call (CloseHandle ht)] else [])"
      by (simp add: retain_handle_trace)
    ultimately show ?thesis
      unfolding dec_unfold [OF assms]
      using Inr t e12 close_pipe_handles_emitted_indep [of w2 os self p2cread c2pwrite errwrite w]
      by simp
  qed
qed

section \<open>The grant happens with a token, and never stops the launch\<close>

lemma grant_access_none: "\<not> truthy tok \<Longrightarrow> grant_access os tok w = w"
  by (simp add: grant_access_def)

lemma grant_try_first:
  "\<exists>evs. trace (snd (grant_try os tok w)) = trace w @ Call (GetTokenInformation tok) # evs"
proof (cases "raises os (GetTokenInformation tok)")
  case None
  let ?w1 = "w\<lparr>trace := trace w @ [Call (GetTokenInformation tok)]\<rparr>"
  have "ext ?w1 (snd (setup_sacl os (token_user os) ?w1))"
    by (rule setup_sacl_emits) simp_all
  then obtain evs where "trace (snd (setup_sacl os (token_user os) ?w1)) = trace ?w1 @ evs"
    by (auto simp: emits_only_iff)
  with None show ?thesis
    by (simp add: grant_try_def bind_def oscall_def)
next
  case (Some e)
  then show ?thesis by (simp add: grant_try_def bind_def oscall_def)
qed

lemma grant_access_first:
  "truthy tok \<Longrightarrow> \<exists>evs. emitted w (grant_access os tok w) = Call (GetTokenInformation tok) # evs"
  using grant_try_first [of os tok w]
  by (cases "grant_try os tok w")
     (auto simp: grant_access_def emitted_def logger_def split: sum.splits)

lemma grant_access_warns:
  "truthy tok \<Longrightarrow> fst (grant_try os tok w) = Inl e \<Longrightarrow>
     Log Warning (SaclWarning e) \<in> set (emitted w (grant_access os tok w))"
proof -
  assume t: "truthy tok" and f: "fst (grant_try os tok w) = Inl e"
  obtain w1 where g: "grant_try os tok w = (Inl e, w1)"
    using f by (cases "grant_try os tok w") simp
  have "ext w w1" using grant_try_emits [of "\<lambda>_. True" w os tok] g by simp
  then obtain evs where "trace w1 = trace w @ evs" by (auto simp: emits_only_iff)
  with t g show ?thesis by (simp add: grant_access_def emitted_def logger_def)
qed

lemma setup_sacl_try_second:
  "\<exists>evs. trace (snd (setup_sacl_try os sid w)) = trace w @ Call OpenWindowStation # evs"
proof (cases "raises os OpenWindowStation")
  case (Some e)
  then show ?thesis by (simp add: setup_sacl_try_def bind_def oscall_def)
next
  case None
  let ?w1 = "w\<lparr>trace := trace w @ [Call OpenWindowStation]\<rparr>"
  let ?rest = "bind (oscall os (GetUserObjectSecurity WinSta0)) (\<lambda>_.
     bind (GetSecurityDescriptorDacl WinSta0) (\<lambda>d.
     bind (add_ace os WinSta0 (new_acl_if_none d) GENERIC_ACCESS sid) (\<lambda>a1.
     bind (add_ace os WinSta0 a1 WINSTA_ALL sid) (\<lambda>dacl_win_sta.
     bind (set_dacl os WinSta0 dacl_win_sta) (\<lambda>_.
     bind (oscall os OpenDesktop) (\<lambda>_.
     bind (oscall os (GetUserObjectSecurity DefaultDesktop)) (\<lambda>_.
     bind (GetSecurityDescriptorDacl DefaultDesktop) (\<lambda>d'.
     bind (add_ace os DefaultDesktop (new_acl_if_none d') GENERIC_ACCESS sid) (\<lambda>b1.
     bind (add_ace os DefaultDesktop b1 DESKTOP_ALL sid) (\<lambda>dacl_desktop.
     set_dacl os DefaultDesktop dacl_desktop))))))))))"
  have "ext ?w1 (snd (?rest ?w1))"
    by (intro emits_only_bind emits_only_oscall set_dacl_emits add_ace_emits)
       (simp_all add: GetSecurityDescriptorDacl_def)
  then obtain evs where "trace (snd (?rest ?w1)) = trace ?w1 @ evs"
    by (auto simp: emits_only_iff)
  moreover have "setup_sacl_try os sid w = ?rest ?w1"
    using None by (simp add: setup_sacl_try_def bind_def oscall_def)
  ultimately show ?thesis by simp
qed

lemma grant_access_invokes:
  assumes "truthy tok" and "raises os (GetTokenInformation tok) = None"
  shows "Call OpenWindowStation \<in> set (emitted w (grant_access os tok w))"
proof -
  let ?w1 = "w\<lparr>trace := trace w @ [Call (GetTokenInformation tok)]\<rparr>"
  obtain evs where e: "trace (snd (setup_sacl_try os (token_user os) ?w1))
      = trace ?w1 @ Call OpenWindowStation # evs"
    using setup_sacl_try_second [of os "token_user os" ?w1] by blast
  have s: "\<exists>evs'. trace (snd (setup_sacl os (token_user os) ?w1))
      = trace ?w1 @ Call OpenWindowStation # evs @ evs'"
    using e by (cases "setup_sacl_try os (token_user os) ?w1")
      (auto simp: setup_sacl_def logger_def split: sum.splits)
  have g: "grant_try os tok w = setup_sacl os (token_user os) ?w1"
    using assms(2) by (simp add: grant_try_def bind_def oscall_def)
  from s obtain evs' where "trace (snd (grant_try os tok w))
      = trace w @ Call (GetTokenInformation tok) # Call OpenWindowStation # evs @ evs'"
    unfolding g by auto
  with assms(1) show ?thesis
    by (cases "grant_try os tok w")
       (auto simp: grant_access_def emitted_def logger_def split: sum.splits)
qed

lemma grant_try_ok_iff:
  "fst (grant_try os tok w) = Inr () \<longleftrightarrow>
     (\<forall>c\<in>set (grant_calls tok (token_user os)). raises os c = None)"
  by (auto simp: grant_try_def setup_sacl_def setup_sacl_try_def bind_def ret_def add_ace_def
      set_dacl_def GetSecurityDescriptorDacl_def oscall_def grant_calls_def
      split: option.splits)

lemma cc_emitted_first:
  "\<exists>evs. emitted w (snd (create_and_check os tok a w)) = Call (CreateProcessAsUser a) # evs"
  using create_and_check_first [of os tok a w] by (auto simp: emitted_def)

lemma cc_no_grant:
  "list_all (\<lambda>ev. \<forall>c. ev = Call c \<longrightarrow> \<not> is_grant_call c)
     (emitted w (snd (create_and_check os tok a w)))"
proof -
  have "emits_only (\<lambda>ev. \<forall>c. ev = Call c \<longrightarrow> \<not> is_grant_call c) w
          (snd (create_and_check os tok a w))"
    by (rule create_and_check_emits) auto
  then show ?thesis by (simp add: emits_only_def)
qed

lemma close_no_grant:
  "list_all (\<lambda>ev. \<forall>c. ev = Call c \<longrightarrow> \<not> is_grant_call c)
     (emitted w (close_pipe_handles os self p c e w))"
proof -
  have "emits_only (\<lambda>ev. \<forall>c. ev = Call c \<longrightarrow> \<not> is_grant_call c) w
          (close_pipe_handles os self p c e w)"
    by (rule close_pipe_handles_emits) (auto elim: is_close_call.elims)
  then show ?thesis by (simp add: emits_only_def)
qed

text \<open>
  C4. In every run of \<open>do_execute_child\<close> that passes the assertion on \<open>pass_fds\<close>,
  \<open>CreateProcessAsUser\<close> is called. With a token, \<open>GetTokenInformation\<close> is called,
  and \<open>setup_sacl\<close> starts (it opens the window station) when that call returns.
  Without a token, none of the calls of the identity extraction and of the grant is
  made. With a token, when any call of the extraction or of the grant raises, a warning
  "Failed to setup SACL" is logged, and the process is created all the same.
\<close>

theorem grant_attempted_iff_token:
  "let tok = p_token self;
       a = create_args os self args executable close_fds cwd env startupinfo
             creationflags shell p2cread c2pwrite errwrite;
       evs = emitted w (snd (do_execute_child os self args executable close_fds [] cwd env
               startupinfo creationflags shell p2cread c2pwrite errwrite w))
   in Call (CreateProcessAsUser a) \<in> set evs
    \<and> (truthy tok \<longrightarrow> Call (GetTokenInformation tok) \<in> set evs)
    \<and> (truthy tok \<longrightarrow> raises os (GetTokenInformation tok) = None \<longrightarrow>
          Call OpenWindowStation \<in> set evs)
    \<and> (\<not> truthy tok \<longrightarrow> (\<forall>c. is_grant_call c \<longrightarrow> Call c \<notin> set evs))
    \<and> (truthy tok \<longrightarrow> (\<forall>c\<in>set (grant_calls tok (token_user os)). raises os c \<noteq> None \<longrightarrow>
          (\<exists>e. Log Warning (SaclWarning e) \<in> set evs)))"
proof -
  let ?tok = "p_token self"
  let ?a = "create_args os self args executable close_fds cwd env startupinfo
             creationflags shell p2cread c2pwrite errwrite"
  let ?w1 = "grant_access os ?tok w"
  let ?evs = "emitted w (snd (do_execute_child os self args executable close_fds [] cwd env
               startupinfo creationflags shell p2cread c2pwrite errwrite w))"
  obtain r w2 where cc: "create_and_check os ?tok ?a ?w1 = (r, w2)"
    by (cases "create_and_check os ?tok ?a ?w1")
  note d = dec_emitted [OF cc]
  obtain cevs where ce: "emitted ?w1 w2 = Call (CreateProcessAsUser ?a) # cevs"
    using cc_emitted_first [of ?w1 os ?tok ?a] cc by auto
  have 1: "Call (CreateProcessAsUser ?a) \<in> set ?evs"
    unfolding d using ce by simp
  have 2: "Call (GetTokenInformation ?tok) \<in> set ?evs" if "truthy ?tok"
    unfolding d using grant_access_first [OF that, of w os] by auto
  have 3: "Call OpenWindowStation \<in> set ?evs"
    if "truthy ?tok" "raises os (GetTokenInformation ?tok) = None"
    unfolding d using grant_access_invokes [OF that, of w] by simp
  have 4: "Call c \<notin> set ?evs" if nt: "\<not> truthy ?tok" and g: "is_grant_call c" for c
  proof -
    have n1: "Call c \<notin> set (emitted ?w1 w2)"
      using cc_no_grant [of ?w1 os ?tok ?a] cc g by (auto simp: list_all_iff)
    have n2: "Call c \<notin> set (emitted w (close_pipe_handles os self p2cread c2pwrite errwrite w))"
      using close_no_grant [of w os self p2cread c2pwrite errwrite] g by (auto simp: list_all_iff)
    show ?thesis
      unfolding d using n1 n2 g grant_access_none [OF nt, of os w]
      by (cases r) (auto split: if_splits)
  qed
  have 5: "\<exists>e. Log Warning (SaclWarning e) \<in> set ?evs"
    if t: "truthy ?tok" and c: "c \<in> set (grant_calls ?tok (token_user os))"
      and r: "raises os c \<noteq> None" for c
  proof -
    from c r have "fst (grant_try os ?tok w) \<noteq> Inr ()"
      by (auto simp: grant_try_ok_iff)
    then obtain e where "fst (grant_try os ?tok w) = Inl e"
      by (cases "fst (grant_try os ?tok w)") auto
    from grant_access_warns [OF t this] show ?thesis
      unfolding d by auto
  qed
  from 1 2 3 4 5 show ?thesis
    unfolding Let_def by blast
qed

theorem grant_attempted_iff_token_witness:
  "truthy (p_token popen0)
   \<and> Call (CreateProcessAsUser (launch_args no_desktop_os popen0))
        \<in> set (emitted world0 (snd (launch no_desktop_os popen0 world0)))
   \<and> Call (GetTokenInformation (Some 7))
        \<in> set (emitted world0 (snd (launch no_desktop_os popen0 world0)))
   \<and> Call OpenWindowStation \<in> set (emitted world0 (snd (launch no_desktop_os popen0 world0)))
   \<and> (\<exists>e. Log Warning (SaclWarning e)
        \<in> set (emitted world0 (snd (launch no_desktop_os popen0 world0))))
   \<and> \<not> truthy (p_token (popen0\<lparr>p_token := None\<rparr>))
   \<and> Call OpenWindowStation
        \<notin> set (emitted world0 (snd (launch quiet_os (popen0\<lparr>p_token := None\<rparr>) world0)))"
proof -
  have t: "truthy (p_token popen0)" "p_token popen0 = Some 7"
    "\<not> truthy (p_token (popen0\<lparr>p_token := None\<rparr>))"
    by (simp_all add: popen0_def truthy_def)
  have r: "raises no_desktop_os (GetTokenInformation (Some 7)) = None"
    "raises no_desktop_os OpenDesktop \<noteq> None"
    by (simp_all add: no_desktop_os_def)
  have g: "OpenDesktop \<in> set (grant_calls (Some 7) (token_user no_desktop_os))"
    by (simp add: grant_calls_def)
  have i: "is_grant_call OpenWindowStation" by simp
  note a = grant_attempted_iff_token [where os = no_desktop_os and self = popen0
      and args = "CmdList [''jupyterhub-singleuser'', ''--port=8888'']" and executable = None
      and close_fds = False and cwd = "Some ''C:/hub''" and env = None and startupinfo = None
      and creationflags = 0 and shell = False and p2cread = "-1" and c2pwrite = "-1"
      and errwrite = "-1" and w = world0, unfolded Let_def, folded launch_def launch_args_def]
  note b = grant_attempted_iff_token [where os = quiet_os and self = "popen0\<lparr>p_token := None\<rparr>"
      and args = "CmdList [''jupyterhub-singleuser'', ''--port=8888'']" and executable = None
      and close_fds = False and cwd = "Some ''C:/hub''" and env = None and startupinfo = None
      and creationflags = 0 and shell = False and p2cread = "-1" and c2pwrite = "-1"
      and errwrite = "-1" and w = world0, unfolded Let_def, folded launch_def launch_args_def]
  from a t(1) r g have "Call (CreateProcessAsUser (launch_args no_desktop_os popen0))
        \<in> set (emitted world0 (snd (launch no_desktop_os popen0 world0)))"
    and "Call (GetTokenInformation (Some 7))
        \<in> set (emitted world0 (snd (launch no_desktop_os popen0 world0)))"
    and "Call OpenWindowStation \<in> set (emitted world0 (snd (launch no_desktop_os popen0 world0)))"
    and "\<exists>e. Log Warning (SaclWarning e)
        \<in> set (emitted world0 (snd (launch no_desktop_os popen0 world0)))"
    unfolding t(2) by blast+
  moreover from b t(3) i have "Call OpenWindowStation
        \<notin> set (emitted world0 (snd (launch quiet_os (popen0\<lparr>p_token := None\<rparr>) world0)))"
    by blast
  ultimately show ?thesis using t by blast
qed

section \<open>The liveness check\<close>

lemma no_wait_outside_check:
  "list_all (\<lambda>ev. \<forall>h t. ev \<noteq> Call (WaitForSingleObject h t) \<and> ev \<noteq> Call (GetExitCodeProcess h))
     (emitted w (grant_access os tok w))"
  "list_all (\<lambda>ev. \<forall>h t. ev \<noteq> Call (WaitForSingleObject h t) \<and> ev \<noteq> Call (GetExitCodeProcess h))
     (emitted w (close_pipe_handles os self p c e w))"
proof -
  let ?P = "\<lambda>ev. \<forall>h t. ev \<noteq> Call (WaitForSingleObject h t) \<and> ev \<noteq> Call (GetExitCodeProcess h)"
  have "emits_only ?P w (grant_access os tok w)"
    by (rule grant_access_emits) auto
  then show "list_all ?P (emitted w (grant_access os tok w))"
    by (simp add: emits_only_def)
  have "emits_only ?P w (close_pipe_handles os self p c e w)"
    by (rule close_pipe_handles_emits) auto
  then show "list_all ?P (emitted w (close_pipe_handles os self p c e w))"
    by (simp add: emits_only_def)
qed

text \<open>
  C3, as the code has it. Let \<open>CreateProcessAsUser\<close> return the handles
  \<open>(hp, ht, pid, tid)\<close> and let \<open>hp.Detach()\<close> not raise. When \<open>GetLastError\<close>
  returns 0, the launcher waits on \<open>hp\<close> for 1000 ms; when the wait returns
  \<open>WAIT_OBJECT_0\<close> it fetches the exit code, logs an error when the code is not
  \<open>STILL_ACTIVE\<close>, and returns the launcher object with process handle and pid set: no
  exception comes from the early exit. When \<open>GetLastError\<close> returns something else,
  that error is logged, neither the wait nor the exit code query is made, and the result
  is the same launcher object.
\<close>

theorem liveness_check_after_clean_create:
  assumes "raises os (CreateProcessAsUser
             (create_args os self args executable close_fds cwd env startupinfo
                creationflags shell p2cread c2pwrite errwrite)) = None"
    and "created os = (hp, ht, cpid, tid)"
    and "raises os (HandleDetach hp) = None"
  shows
  "let a = create_args os self args executable close_fds cwd env startupinfo
             creationflags shell p2cread c2pwrite errwrite;
       run = do_execute_child os self args executable close_fds [] cwd env
               startupinfo creationflags shell p2cread c2pwrite errwrite w;
       evs = emitted w (snd run);
       result = Inr (if hp \<noteq> 0
                     then self\<lparr>child_created := True, p_handle := Some hp, p_pid := Some cpid\<rparr>
                     else self\<lparr>child_created := True\<rparr>)
   in (last_error os = 0 \<longrightarrow>
         Call (WaitForSingleObject hp 1000) \<in> set evs
       \<and> (raises os (WaitForSingleObject hp 1000) = None \<longrightarrow>
            (wait_result os \<noteq> WAIT_OBJECT_0 \<longrightarrow> fst run = result)
          \<and> (wait_result os = WAIT_OBJECT_0 \<longrightarrow>
               Call (GetExitCodeProcess hp) \<in> set evs
             \<and> (raises os (GetExitCodeProcess hp) = None \<longrightarrow>
                  fst run = result
                \<and> (exit_code os \<noteq> STILL_ACTIVE \<longrightarrow>
                     Log Error (ExitedImmediately (exit_code os) executable (cp_cmdline a)
                                  (p_token self)) \<in> set evs)))))
    \<and> (last_error os \<noteq> 0 \<longrightarrow>
         fst run = result
       \<and> Log Error (CreateProcessLastError (last_error os) executable (cp_cmdline a)
                      (p_token self)) \<in> set evs
       \<and> (\<forall>h t. Call (WaitForSingleObject h t) \<notin> set evs)
       \<and> (\<forall>h. Call (GetExitCodeProcess h) \<notin> set evs))"
proof -
  let ?tok = "p_token self"
  let ?a = "create_args os self args executable close_fds cwd env startupinfo
             creationflags shell p2cread c2pwrite errwrite"
  let ?w1 = "grant_access os ?tok w"
  let ?run = "do_execute_child os self args executable close_fds [] cwd env
               startupinfo creationflags shell p2cread c2pwrite errwrite w"
  let ?evs = "emitted w (snd ?run)"
  let ?result = "Inr (if hp \<noteq> 0
                     then self\<lparr>child_created := True, p_handle := Some hp, p_pid := Some cpid\<rparr>
                     else self\<lparr>child_created := True\<rparr>)"
  have exe: "cp_executable ?a = executable" by (simp add: create_args_def)
  have hp: "fst (created os) = hp" using assms(2) by simp
  obtain r w2 where cc: "create_and_check os ?tok ?a ?w1 = (r, w2)"
    by (cases "create_and_check os ?tok ?a ?w1")
  note d = dec_emitted [OF cc]
  note f = dec_fst [of os self args executable close_fds cwd env startupinfo
               creationflags shell p2cread c2pwrite errwrite w]
  have res: "fst (create_and_check os ?tok ?a w) = Inr (created os) \<Longrightarrow> fst ?run = ?result"
    unfolding f using assms(2,3) by (simp add: retain_handle_fst)
  note ng = no_wait_outside_check(1) [of w os ?tok]
  note nc = no_wait_outside_check(2) [of w os self p2cread c2pwrite errwrite]
  show ?thesis
  proof (cases rule: cc_cases [of os ?a])
    case (raises e)
    with assms(1) show ?thesis by simp
  next
    case last_error
    note p = cc_last_error [OF last_error, of ?tok]
    have r: "r = Inr (created os)" and t: "emitted ?w1 w2 =
        [Call (CreateProcessAsUser ?a), Call GetLastError,
         Log Error (CreateProcessLastError (last_error os) executable (cp_cmdline ?a) ?tok)]"
      using cc p [of ?w1] by (auto simp: exe)
    have "fst ?run = ?result" using res p [of w] by simp
    moreover have "Log Error (CreateProcessLastError (last_error os) executable (cp_cmdline ?a) ?tok)
        \<in> set ?evs"
      unfolding d t by simp
    moreover have "Call (WaitForSingleObject h t) \<notin> set ?evs" for h t
      unfolding d t r using ng nc assms(2) by (auto simp: list_all_iff)
    moreover have "Call (GetExitCodeProcess h) \<notin> set ?evs" for h
      unfolding d t r using ng nc assms(2) by (auto simp: list_all_iff)
    ultimately show ?thesis using last_error(2) unfolding Let_def by blast
  next
    case (wait_raises e)
    note p = cc_wait_raises [OF wait_raises, of ?tok]
    have "Call (WaitForSingleObject hp 1000) \<in> set (emitted ?w1 w2)"
      using cc p [of ?w1] hp by auto
    then have "Call (WaitForSingleObject hp 1000) \<in> set ?evs" unfolding d by simp
    with wait_raises hp show ?thesis unfolding Let_def by simp
  next
    case running
    note p = cc_running [OF running, of ?tok]
    have "Call (WaitForSingleObject hp 1000) \<in> set (emitted ?w1 w2)"
      using cc p [of ?w1] hp by auto
    then have "Call (WaitForSingleObject hp 1000) \<in> set ?evs" unfolding d by simp
    moreover have "fst ?run = ?result" using res p [of w] by simp
    ultimately show ?thesis using running hp unfolding Let_def by simp
  next
    case (exit_raises e)
    note p = cc_exit_raises [OF exit_raises, of ?tok]
    have "Call (WaitForSingleObject hp 1000) \<in> set (emitted ?w1 w2)"
      and "Call (GetExitCodeProcess hp) \<in> set (emitted ?w1 w2)"
      using cc p [of ?w1] hp by auto
    then have "Call (WaitForSingleObject hp 1000) \<in> set ?evs"
      and "Call (GetExitCodeProcess hp) \<in> set ?evs" unfolding d by simp_all
    with exit_raises hp show ?thesis unfolding Let_def by simp
  next
    case exited
    note p = cc_exited [OF exited, of ?tok]
    have "Call (WaitForSingleObject hp 1000) \<in> set (emitted ?w1 w2)"
      and "Call (GetExitCodeProcess hp) \<in> set (emitted ?w1 w2)"
      and "exit_code os \<noteq> STILL_ACTIVE \<Longrightarrow>
             Log Error (ExitedImmediately (exit_code os) executable (cp_cmdline ?a) ?tok)
               \<in> set (emitted ?w1 w2)"
      using cc p [of ?w1] hp by (auto simp: exe)
    then have "Call (WaitForSingleObject hp 1000) \<in> set ?evs"
      and "Call (GetExitCodeProcess hp) \<in> set ?evs"
      and "exit_code os \<noteq> STILL_ACTIVE \<Longrightarrow>
             Log Error (ExitedImmediately (exit_code os) executable (cp_cmdline ?a) ?tok)
               \<in> set ?evs"
      unfolding d by simp_all
    moreover have "fst ?run = ?result" using res p [of w] by simp
    ultimately show ?thesis using exited hp unfolding Let_def by simp
  qed
qed

theorem liveness_check_after_clean_create_witness:
  "raises early_exit_os (CreateProcessAsUser (launch_args early_exit_os popen0)) = None
   \<and> created early_exit_os = (100, 101, 4242, 4243)
   \<and> raises early_exit_os (HandleDetach 100) = None
   \<and> last_error early_exit_os = 0
   \<and> Call (WaitForSingleObject 100 1000)
        \<in> set (emitted world0 (snd (launch early_exit_os popen0 world0)))
   \<and> Call (GetExitCodeProcess 100)
        \<in> set (emitted world0 (snd (launch early_exit_os popen0 world0)))
   \<and> Log Error (ExitedImmediately 3221225794 None
                   (cp_cmdline (launch_args early_exit_os popen0)) (Some 7))
        \<in> set (emitted world0 (snd (launch early_exit_os popen0 world0)))
   \<and> fst (launch early_exit_os popen0 world0)
        = Inr (popen0\<lparr>child_created := True, p_handle := Some 100, p_pid := Some 4242\<rparr>)
   \<and> last_error stale_error_os \<noteq> 0
   \<and> fst (launch stale_error_os popen0 world0)
        = Inr (popen0\<lparr>child_created := True, p_handle := Some 100, p_pid := Some 4242\<rparr>)"
proof -
  have e: "raises early_exit_os (CreateProcessAsUser (launch_args early_exit_os popen0)) = None"
    "created early_exit_os = (100, 101, 4242, 4243)"
    "raises early_exit_os (HandleDetach 100) = None"
    "last_error early_exit_os = 0" "wait_result early_exit_os = WAIT_OBJECT_0"
    "raises early_exit_os (WaitForSingleObject 100 1000) = None"
    "raises early_exit_os (GetExitCodeProcess 100) = None"
    "exit_code early_exit_os = 3221225794" "exit_code early_exit_os \<noteq> STILL_ACTIVE"
    by (simp_all add: early_exit_os_def quiet_os_def WAIT_OBJECT_0_def STILL_ACTIVE_def)
  have s: "raises stale_error_os (CreateProcessAsUser (launch_args stale_error_os popen0)) = None"
    "created stale_error_os = (100, 101, 4242, 4243)"
    "raises stale_error_os (HandleDetach 100) = None"
    "last_error stale_error_os \<noteq> 0"
    by (simp_all add: stale_error_os_def quiet_os_def)
  have t: "p_token popen0 = Some 7" by (simp add: popen0_def)
  note a = liveness_check_after_clean_create [where os = early_exit_os and self = popen0
      and args = "CmdList [''jupyterhub-singleuser'', ''--port=8888'']" and executable = None
      and close_fds = False and cwd = "Some ''C:/hub''" and env = None and startupinfo = None
      and creationflags = 0 and shell = False and p2cread = "-1" and c2pwrite = "-1"
      and errwrite = "-1" and w = world0 and hp = 100 and ht = 101 and cpid = 4242 and tid = 4243,
      unfolded Let_def, folded launch_def launch_args_def, OF e(1) e(2) e(3)]
  note b = liveness_check_after_clean_create [where os = stale_error_os and self = popen0
      and args = "CmdList [''jupyterhub-singleuser'', ''--port=8888'']" and executable = None
      and close_fds = False and cwd = "Some ''C:/hub''" and env = None and startupinfo = None
      and creationflags = 0 and shell = False and p2cread = "-1" and c2pwrite = "-1"
      and errwrite = "-1" and w = world0 and hp = 100 and ht = 101 and cpid = 4242 and tid = 4243,
      unfolded Let_def, folded launch_def launch_args_def, OF s(1) s(2) s(3)]
  from a e(4-9) have "Call (WaitForSingleObject 100 1000)
        \<in> set (emitted world0 (snd (launch early_exit_os popen0 world0)))"
    and "Call (GetExitCodeProcess 100)
        \<in> set (emitted world0 (snd (launch early_exit_os popen0 world0)))"
    and "Log Error (ExitedImmediately 3221225794 None
                   (cp_cmdline (launch_args early_exit_os popen0)) (Some 7))
        \<in> set (emitted world0 (snd (launch early_exit_os popen0 world0)))"
    and "fst (launch early_exit_os popen0 world0)
        = Inr (popen0\<lparr>child_created := True, p_handle := Some 100, p_pid := Some 4242\<rparr>)"
    unfolding t by simp_all
  moreover from b s(4) have "fst (launch stale_error_os popen0 world0)
        = Inr (popen0\<lparr>child_created := True, p_handle := Some 100, p_pid := Some 4242\<rparr>)"
    by simp
  ultimately show ?thesis using e(1-4) s(4) by blast
qed

text \<open>
  \<open>CreateProcessAsUser\<close> returns, \<open>GetLastError\<close> returns 6 and the child has exited:
  the run logs the error code and ends; it never waits on the process handle.
\<close>

theorem stale_last_error_skips_wait:
  "raises stale_error_os
     (CreateProcessAsUser (launch_args stale_error_os (popen0\<lparr>p_token := None\<rparr>))) = None
   \<and> emitted world0 (snd (launch stale_error_os (popen0\<lparr>p_token := None\<rparr>) world0)) =
       [Call (CreateProcessAsUser (launch_args stale_error_os (popen0\<lparr>p_token := None\<rparr>))),
        Call GetLastError,
        Log Error (CreateProcessLastError 6 None ''jupyterhub-singleuser --port=8888'' None),
        Call (HandleDetach 100), Call (CloseHandle 101)]
   \<and> Call (WaitForSingleObject 100 1000)
        \<notin> set (emitted world0 (snd (launch stale_error_os (popen0\<lparr>p_token := None\<rparr>) world0)))"
proof -
  let ?self = "popen0\<lparr>p_token := None\<rparr>"
  let ?a = "launch_args stale_error_os ?self"
  have r: "raises stale_error_os (CreateProcessAsUser ?a) = None"
    by (simp add: stale_error_os_def quiet_os_def)
  have l: "last_error stale_error_os \<noteq> 0" "last_error stale_error_os = 6"
    by (simp_all add: stale_error_os_def)
  have c: "created stale_error_os = (100, 101, 4242, 4243)"
    by (simp add: stale_error_os_def quiet_os_def)
  have t: "p_token ?self = None" "\<not> truthy (p_token ?self)" "devnull ?self = None"
    by (simp_all add: truthy_def popen0_def)
  have cmd: "cp_cmdline ?a = ''jupyterhub-singleuser --port=8888''" "cp_executable ?a = None"
    by (simp_all add: launch_args_def create_args_def args_shell_def args_str_def
        list2cmdline_def needquote_def Let_def space_def dquote_def backslash_def tab_def)
  have g: "grant_access stale_error_os (p_token ?self) world0 = world0"
    by (rule grant_access_none [OF t(2)])
  note p = cc_last_error [OF r l(1), of "p_token ?self" world0]
  have cc: "create_and_check stale_error_os (p_token ?self)
      (create_args stale_error_os ?self (CmdList [''jupyterhub-singleuser'', ''--port=8888''])
         None False (Some ''C:/hub'') None None 0 False (-1) (-1) (-1))
      (grant_access stale_error_os (p_token ?self) world0) =
      (Inr (100, 101, 4242, 4243),
       world0\<lparr>trace := trace world0 @ [Call (CreateProcessAsUser ?a), Call GetLastError,
            Log Error (CreateProcessLastError 6 None ''jupyterhub-singleuser --port=8888'' None)]\<rparr>)"
    unfolding g using p by (simp add: c l(2) cmd [unfolded launch_args_def] t(1) launch_args_def)
  have e: "emitted world0 (snd (launch stale_error_os ?self world0)) =
       [Call (CreateProcessAsUser ?a), Call GetLastError,
        Log Error (CreateProcessLastError 6 None ''jupyterhub-singleuser --port=8888'' None),
        Call (HandleDetach 100), Call (CloseHandle 101)]"
    unfolding launch_def dec_emitted [OF cc] g
    by (simp add: close_pipe_handles_emitted close_one_emitted t(3))
  show ?thesis
    using r e by simp
qed

section \<open>What a launch can add to the trace\<close>

lemma do_execute_child_emits:
  assumes "P (Call (CreateProcessAsUser
             (create_args os self args executable close_fds cwd env startupinfo
                creationflags shell p2cread c2pwrite errwrite)))"
    and "\<And>c. \<not> is_create_call c \<Longrightarrow> P (Call c)"
    and "\<And>l m. P (Log l m)"
  shows "emits_only P w (snd (do_execute_child os self args executable close_fds [] cwd env
           startupinfo creationflags shell p2cread c2pwrite errwrite w))"
proof -
  let ?a = "create_args os self args executable close_fds cwd env startupinfo
                creationflags shell p2cread c2pwrite errwrite"
  let ?w1 = "grant_access os (p_token self) w"
  have g: "\<And>c. is_grant_call c \<Longrightarrow> P (Call c)"
    by (rule assms(2)) (auto elim: is_grant_call.elims)
  have cl: "\<And>c. is_close_call c \<Longrightarrow> P (Call c)"
    by (rule assms(2)) (auto elim: is_close_call.elims)
  have 1: "emits_only P w ?w1"
    by (rule grant_access_emits [OF g assms(3)])
  obtain r w2 where cc: "create_and_check os (p_token self) ?a ?w1 = (r, w2)"
    by (cases "create_and_check os (p_token self) ?a ?w1")
  have 2: "emits_only P ?w1 w2"
    using create_and_check_emits [of P ?a ?w1 os "p_token self", OF assms(1) assms(2) assms(3)] cc
    by simp
  note 12 = emits_only_trans [OF 1 2]
  have c: "emits_only P v (close_pipe_handles os self p2cread c2pwrite errwrite v)" for v
    by (rule close_pipe_handles_emits [OF cl assms(3)])
  show ?thesis
  proof (cases r)
    case (Inl exc)
    have "emits_only P w2 (logger Error (CreateProcessException exc) w2)"
      by (rule emits_only_logger) (rule assms(3))
    from emits_only_trans [OF emits_only_trans [OF 12 this] c]
    show ?thesis unfolding dec_unfold [OF cc] using Inl by simp
  next
    case (Inr t)
    obtain hp ht cpid tid where t: "t = (hp, ht, cpid, tid)" by (cases t)
    have "emits_only P v (snd (retain_handle os self hp ht cpid v))" for v
      by (simp add: retain_handle_trace assms(2))
    from emits_only_trans [OF emits_only_trans [OF 12 c] this]
    show ?thesis unfolding dec_unfold [OF cc] using Inr t by simp
  qed
qed

lemma cp_env_create_args [simp]:
  "cp_env (create_args os self args executable close_fds cwd env startupinfo
             creationflags shell p2cread c2pwrite errwrite) = env"
  by (simp add: create_args_def)

lemma PopenAsUser_emits:
  assumes "\<And>a. cp_env a = dflt None (kw_env kw) \<Longrightarrow> P (Call (CreateProcessAsUser a))"
    and "\<And>c. \<not> is_create_call c \<Longrightarrow> P (Call c)"
    and "\<And>l m. P (Log l m)"
  shows "emits_only P w (snd (PopenAsUser os args kw w))"
  unfolding PopenAsUser_def Let_def
  by (cases "std_handles os") (simp add: do_execute_child_emits assms)

lemma detach_token_emits:
  assumes "\<And>c. \<not> is_create_call c \<Longrightarrow> P (Call c)" and "\<And>l m. P (Log l m)"
  shows "emits_only P w (detach_token os self tok w)"
  by (auto simp: detach_token_def oscall_def logger_def emits_only_iff assms split: option.splits)

lemma start_launch_emits:
  assumes "\<And>a. cp_env a = dflt None (kw_env kw) \<Longrightarrow> P (Call (CreateProcessAsUser a))"
    and "\<And>c. \<not> is_create_call c \<Longrightarrow> P (Call c)"
    and "\<And>l m. P (Log l m)"
  shows "emits_only P w (snd (start_launch os self c kw tok w))"
proof -
  obtain r w1 where p: "PopenAsUser os (CmdList c) kw w = (r, w1)"
    by (cases "PopenAsUser os (CmdList c) kw w")
  have 1: "emits_only P w w1"
    using PopenAsUser_emits [of kw P w os "CmdList c", OF assms] p by simp
  have l: "emits_only P w1 (logger lv m w1)" for lv m
    by (rule emits_only_logger) (rule assms(3))
  have d: "emits_only P v (detach_token os self tok v)" for v
    by (rule detach_token_emits [OF assms(2,3)])
  show ?thesis
  proof (cases r)
    case (Inr q)
    with p emits_only_trans [OF 1 d] show ?thesis by (simp add: start_launch_def)
  next
    case (Inl e)
    show ?thesis
    proof (cases e)
      case (Exception m)
      with Inl p emits_only_trans [OF emits_only_trans [OF 1 l] d] show ?thesis
        by (simp add: start_launch_def)
    next
      case (PermissionError m)
      with Inl p emits_only_trans [OF emits_only_trans [OF 1 l] d] emits_only_trans [OF 1 d]
      show ?thesis
        by (cases c) (simp_all add: start_launch_def)
    qed
  qed
qed

lemma start_token_emits:
  assumes "\<And>c. \<not> is_create_call c \<Longrightarrow> P (Call c)" and "\<And>l m. P (Log l m)"
  shows "emits_only P w (snd (start_token os self w))"
  by (auto simp: start_token_def oscall_def logger_def emits_only_iff assms split: option.splits)

lemma start_user_env_emits:
  assumes "\<And>c. \<not> is_create_call c \<Longrightarrow> P (Call c)" and "\<And>l m. P (Log l m)"
  shows "emits_only P w (snd (start_user_env os self tok env w))"
  by (auto simp: start_user_env_def oscall_def logger_def emits_only_iff assms Let_def
      split: option.splits)

lemma mkdtemp_loop_emits:
  assumes "\<And>c. \<not> is_create_call c \<Longrightarrow> P (Call c)"
  shows "emits_only P w (snd (mkdtemp_loop os names w))"
proof (induction names arbitrary: w)
  case Nil
  show ?case by simp
next
  case (Cons f names)
  show ?case
  proof (cases "fs w f = None")
    case True
    then show ?thesis
      by (auto simp: oscall_def emits_only_iff assms split: option.splits)
  next
    case False
    have "emits_only P w (invoke (Mkdir f) w)"
      by (rule emits_only_invoke) (simp add: assms)
    from emits_only_trans [OF this Cons.IH] False show ?thesis by simp
  qed
qed

lemma determine_working_directory_emits:
  assumes "\<And>c. \<not> is_create_call c \<Longrightarrow> P (Call c)" and "\<And>l m. P (Log l m)"
  shows "emits_only P w (snd (determine_working_directory os self user_env w))"
proof -
  have l: "emits_only P v (logger lv m v)" for lv m v
    by (rule emits_only_logger) (rule assms(2))
  let ?w1 = "if notebook_dir self \<noteq> []
             then logger Warning (NotebookDirMissing (notebook_dir self)) w else w"
  have 1: "emits_only P w ?w1" using l by simp
  have g: "emits_only P v (snd (oscall os Getcwd v))" for v
    by (rule emits_only_oscall) (simp add: assms(1))
  have m: "emits_only P v (snd (bind (mkdtemp os)
             (\<lambda>temp_dir w4. (Inr temp_dir, logger Warning (UsingTempDir temp_dir) w4)) v))" for v
    unfolding mkdtemp_def
    by (rule emits_only_bind) (simp_all add: mkdtemp_loop_emits assms l)
  have 2: "emits_only P ?w1
      (snd (case oscall os Getcwd ?w1 of
                  (Inr _, w2) \<Rightarrow> (Inr (getcwd_result os), w2)
                | (Inl exc, w2) \<Rightarrow>
                    bind (mkdtemp os)
                      (\<lambda>temp_dir w4. (Inr temp_dir, logger Warning (UsingTempDir temp_dir) w4))
                      (logger Warning (GetcwdFailed exc) w2)))"
  proof (cases "oscall os Getcwd ?w1")
    case (Pair r w2)
    with g [of ?w1] have 3: "emits_only P ?w1 w2" by simp
    show ?thesis
      using Pair 3 emits_only_trans [OF emits_only_trans [OF 3 l] m]
      by (cases r) simp_all
  qed
  show ?thesis
    unfolding determine_working_directory_def Let_def
    using 1 emits_only_trans [OF 1 2]
    by (auto split: option.splits)
qed

lemma start_token_fst:
  "fst (start_token os (self\<lparr>port := n\<rparr>) w) = fst (start_token os self w0)"
  by (simp add: start_token_def oscall_def split: option.splits)

lemma kw_env_fixed [simp]: "kw_env (start_popen_kwargs self tok cwd env) = Some (Some env)"
  by (simp add: start_popen_kwargs_def)

lemma emitted_mem_lift:
  assumes "ext w w1" and "ext w1 w2" and "ext w2 w3" and "ev \<in> set (emitted w1 w2)"
  shows "ev \<in> set (emitted w w3)"
proof -
  have "emitted w w3 = emitted w w2 @ emitted w2 w3"
    by (rule emitted_append [OF emits_only_trans [OF assms(1,2)] assms(3)])
  moreover have "emitted w w2 = emitted w w1 @ emitted w1 w2"
    by (rule emitted_append [OF assms(1,2)])
  ultimately show ?thesis using assms(4) by simp
qed

text \<open>The run of \<open>start\<close> in its parts.\<close>

lemma start_unfold:
  assumes "start_token os (self0\<lparr>port := random_port os\<rparr>)
             (logger Info (Spawning (join '' '' (map shlex_quote
                (start_cmd (self0\<lparr>port := random_port os\<rparr>))))) w0) = (tok, w2)"
    and "start_user_env os (self0\<lparr>port := random_port os\<rparr>) tok
           (get_env os (self0\<lparr>port := random_port os\<rparr>)) w2 = ((user_env, env'), w3)"
  shows "start os self0 w0 =
     bind (determine_working_directory os (self0\<lparr>port := random_port os\<rparr>) user_env) (\<lambda>cwd.
     bind (start_launch os (self0\<lparr>port := random_port os\<rparr>)
             (start_cmd (self0\<lparr>port := random_port os\<rparr>))
             (start_popen_kwargs (self0\<lparr>port := random_port os\<rparr>) tok cwd env') tok) (\<lambda>self1.
       (let self2 = (if ip self1 \<noteq> [] then self1\<lparr>server_ip := ip self1\<rparr> else self1)
                      \<lparr>server_port := port self1\<rparr>
        in bind (oscall os DbCommit) (\<lambda>_.
             ret ((if ip self2 \<noteq> [] then ip self2 else ''127.0.0.1'', port self2), self2))))) w3"
  using assms by (simp add: start_def Let_def)

lemma start_emits:
  assumes "\<And>a. cp_env a =
             Some (snd (fst (start_user_env os (self0\<lparr>port := random_port os\<rparr>)
                              (fst (start_token os self0 w0))
                              (get_env os (self0\<lparr>port := random_port os\<rparr>)) w0)))
           \<Longrightarrow> P (Call (CreateProcessAsUser a))"
    and "\<And>c. \<not> is_create_call c \<Longrightarrow> P (Call c)"
    and "\<And>l m. P (Log l m)"
  shows "emits_only P w0 (snd (start os self0 w0))"
proof -
  let ?self = "self0\<lparr>port := random_port os\<rparr>"
  let ?w1 = "logger Info (Spawning (join '' '' (map shlex_quote (start_cmd ?self)))) w0"
  obtain tok w2 where t: "start_token os ?self ?w1 = (tok, w2)"
    by (cases "start_token os ?self ?w1")
  obtain user_env env' w3 where
    u: "start_user_env os ?self tok (get_env os ?self) w2 = ((user_env, env'), w3)"
    by (cases "start_user_env os ?self tok (get_env os ?self) w2") auto
  have tok: "fst (start_token os self0 w0) = tok"
    using t start_token_fst [where os = os and self = self0 and n = "random_port os" and w = ?w1 and ?w0.0 = w0] by simp
  have "snd (fst (start_user_env os ?self tok (get_env os ?self) w0))
          = snd (fst (start_user_env os ?self tok (get_env os ?self) w2))"
    by (simp only: start_user_env_env)
  also have "\<dots> = env'" by (simp add: u)
  finally have env': "snd (fst (start_user_env os ?self tok (get_env os ?self) w0)) = env'" .
  note cp = assms(1) [unfolded tok env']
  have 1: "emits_only P w0 ?w1" by (rule emits_only_logger) (rule assms(3))
  have 2: "emits_only P ?w1 w2"
    using start_token_emits [of P ?w1 os ?self, OF assms(2,3)] t by simp
  have 3: "emits_only P w2 w3"
    using start_user_env_emits [of P w2 os ?self tok "get_env os ?self", OF assms(2,3)] u by simp
  note 123 = emits_only_trans [OF emits_only_trans [OF 1 2] 3]
  have 4: "emits_only P w3 (snd (
     bind (determine_working_directory os ?self user_env) (\<lambda>cwd.
     bind (start_launch os ?self (start_cmd ?self)
             (start_popen_kwargs ?self tok cwd env') tok) (\<lambda>self1.
       (let self2 = (if ip self1 \<noteq> [] then self1\<lparr>server_ip := ip self1\<rparr> else self1)
                      \<lparr>server_port := port self1\<rparr>
        in bind (oscall os DbCommit) (\<lambda>_.
             ret ((if ip self2 \<noteq> [] then ip self2 else ''127.0.0.1'', port self2), self2))))) w3))"
  proof -
    have sl: "emits_only P v (snd (start_launch os ?self c
                (start_popen_kwargs ?self tok cwd env') tok v))" for v c cwd
      by (rule start_launch_emits) (simp_all add: dflt_def cp assms(2,3))
    have db: "emits_only P v (snd (oscall os DbCommit v))" for v
      by (rule emits_only_oscall) (simp add: assms(2))
    show ?thesis
      unfolding Let_def
      by (intro emits_only_bind determine_working_directory_emits sl db emits_only_ret
            assms(2,3))
  qed
  from emits_only_trans [OF 123 4] show ?thesis
    unfolding start_unfold [OF t u] .
qed


lemma dwd_getcwd_ok:
  "raises os Getcwd = None \<Longrightarrow>
     \<exists>d v. determine_working_directory os self user_env w = (Inr d, v)"
  by (auto simp: determine_working_directory_def Let_def oscall_def split: option.splits)

lemma ext_start_launch: "ext w (snd (start_launch os self c kw tok w))"
  by (rule start_launch_emits) simp_all

lemma start_parts:
  assumes "raises os Getcwd = None"
  obtains tok cwd env' w4 w5 r where
    "ext w0 w4"
    "start_launch os (self0\<lparr>port := random_port os\<rparr>)
       (start_cmd (self0\<lparr>port := random_port os\<rparr>))
       (start_popen_kwargs (self0\<lparr>port := random_port os\<rparr>) tok cwd env') tok w4 = (r, w5)"
    "ext w5 (snd (start os self0 w0))"
    "\<And>e. r = Inl e \<Longrightarrow> fst (start os self0 w0) = Inl e"
proof -
  let ?self = "self0\<lparr>port := random_port os\<rparr>"
  let ?w1 = "logger Info (Spawning (join '' '' (map shlex_quote (start_cmd ?self)))) w0"
  obtain tok w2 where t: "start_token os ?self ?w1 = (tok, w2)"
    by (cases "start_token os ?self ?w1")
  obtain user_env env' w3 where
    u: "start_user_env os ?self tok (get_env os ?self) w2 = ((user_env, env'), w3)"
    by (cases "start_user_env os ?self tok (get_env os ?self) w2") auto
  obtain cwd w4 where d: "determine_working_directory os ?self user_env w3 = (Inr cwd, w4)"
    using dwd_getcwd_ok [OF assms] by blast
  obtain r w5 where l: "start_launch os ?self (start_cmd ?self)
       (start_popen_kwargs ?self tok cwd env') tok w4 = (r, w5)"
    by (cases "start_launch os ?self (start_cmd ?self)
       (start_popen_kwargs ?self tok cwd env') tok w4")
  have 1: "ext w0 ?w1" by (rule emits_only_logger) simp
  have 2: "ext ?w1 w2" using start_token_emits [of "\<lambda>_. True" ?w1 os ?self] t by simp
  have 3: "ext w2 w3"
    using start_user_env_emits [of "\<lambda>_. True" w2 os ?self tok "get_env os ?self"] u by simp
  have 4: "ext w3 w4"
    using determine_working_directory_emits [of "\<lambda>_. True" w3 os ?self user_env] d by simp
  have a: "ext w0 w4"
    by (rule emits_only_trans [OF emits_only_trans [OF emits_only_trans [OF 1 2] 3] 4])
  have c: "ext w5 (snd (start os self0 w0))"
  proof (cases r)
    case (Inl e)
    then show ?thesis
      unfolding start_unfold [OF t u] by (simp add: bind_def d l)
  next
    case (Inr self1)
    then show ?thesis
      unfolding start_unfold [OF t u]
      by (simp add: bind_def d l Let_def ret_def oscall_def split: option.splits)
  qed
  have e: "fst (start os self0 w0) = Inl e" if "r = Inl e" for e
    unfolding start_unfold [OF t u] using that by (simp add: bind_def d l)
  from a l c e show ?thesis by (rule that)
qed

lemma dec_creates:
  "Call (CreateProcessAsUser
           (create_args os self args executable close_fds cwd env startupinfo
              creationflags shell p2cread c2pwrite errwrite))
     \<in> set (emitted w (snd (do_execute_child os self args executable close_fds [] cwd env
               startupinfo creationflags shell p2cread c2pwrite errwrite w)))"
proof -
  let ?a = "create_args os self args executable close_fds cwd env startupinfo
             creationflags shell p2cread c2pwrite errwrite"
  let ?w1 = "grant_access os (p_token self) w"
  obtain r w2 where cc: "create_and_check os (p_token self) ?a ?w1 = (r, w2)"
    by (cases "create_and_check os (p_token self) ?a ?w1")
  obtain cevs where "emitted ?w1 w2 = Call (CreateProcessAsUser ?a) # cevs"
    using cc_emitted_first [of ?w1 os "p_token self" ?a] cc by auto
  then show ?thesis
    unfolding dec_emitted [OF cc] by simp
qed

lemma dec_raises:
  assumes "raises os (CreateProcessAsUser
             (create_args os self args executable close_fds cwd env startupinfo
                creationflags shell p2cread c2pwrite errwrite)) = Some x"
  shows "fst (do_execute_child os self args executable close_fds [] cwd env
               startupinfo creationflags shell p2cread c2pwrite errwrite w) = Inl x"
  unfolding dec_fst by (simp add: cc_raises [OF assms])

lemma PopenAsUser_creates:
  assumes "popen_init_passes (version_info os) = execute_child_params (version_info os)"
  shows "\<exists>a. cp_env a = dflt None (kw_env kw)
      \<and> Call (CreateProcessAsUser a) \<in> set (emitted w (snd (PopenAsUser os args kw w)))"
proof -
  obtain p c e where h: "std_handles os = (p, c, e)" by (cases "std_handles os") auto
  have n: "(if popen_init_passes (version_info os) \<noteq> execute_child_params (version_info os)
            then x else y) = y" for x y :: "popen io"
    using assms by simp
  show ?thesis
    unfolding PopenAsUser_def Let_def h prod.case n
    by (rule exI, rule conjI [OF _ dec_creates]) simp
qed

lemma PopenAsUser_raises:
  assumes "\<forall>a. raises os (CreateProcessAsUser a) = Some x"
    and "popen_init_passes (version_info os) = execute_child_params (version_info os)"
  shows "fst (PopenAsUser os args kw w) = Inl x"
proof -
  obtain p c e where h: "std_handles os = (p, c, e)" by (cases "std_handles os") auto
  have n: "(if popen_init_passes (version_info os) \<noteq> execute_child_params (version_info os)
            then x else y) = y" for x y :: "popen io"
    using assms(2) by simp
  show ?thesis
    unfolding PopenAsUser_def Let_def h prod.case n
    by (rule dec_raises) (simp add: assms)
qed

lemma PopenAsUser_arity:
  assumes "popen_init_passes (version_info os) \<noteq> execute_child_params (version_info os)"
  shows "PopenAsUser os args kw w = (Inl arity_error, w)"
  using assms by (simp add: PopenAsUser_def)

lemma ext_PopenAsUser: "ext w (snd (PopenAsUser os args kw w))"
  by (rule PopenAsUser_emits) simp_all

lemma ext_detach: "ext w (detach_token os self tok w)"
  by (rule detach_token_emits) simp_all

lemma start_launch_creates:
  assumes "popen_init_passes (version_info os) = execute_child_params (version_info os)"
  shows "\<exists>a. cp_env a = dflt None (kw_env kw)
      \<and> Call (CreateProcessAsUser a) \<in> set (emitted w (snd (start_launch os self c kw tok w)))"
proof -
  obtain r w1 where p: "PopenAsUser os (CmdList c) kw w = (r, w1)"
    by (cases "PopenAsUser os (CmdList c) kw w")
  obtain a where a: "cp_env a = dflt None (kw_env kw)"
    "Call (CreateProcessAsUser a) \<in> set (emitted w w1)"
    using PopenAsUser_creates [OF assms, of kw w "CmdList c"] p by auto
  have 1: "ext w w1" using ext_PopenAsUser [of w os "CmdList c" kw] p by simp
  have 2: "ext w1 (snd (start_launch os self c kw tok w))"
  proof -
    have l: "ext w1 (logger lv m w1)" for lv m by (rule emits_only_logger) simp
    note d = ext_detach
    show ?thesis
    proof (cases r)
      case (Inr q)
      with p d show ?thesis by (simp add: start_launch_def)
    next
      case (Inl e)
      show ?thesis
      proof (cases e)
        case (Exception m)
        with Inl p emits_only_trans [OF l d] show ?thesis by (simp add: start_launch_def)
      next
        case (PermissionError m)
        with Inl p emits_only_trans [OF l d] d show ?thesis
          by (cases c) (simp_all add: start_launch_def)
      qed
    qed
  qed
  from emitted_mem_lift [OF emits_only_refl 1 2] a show ?thesis by auto
qed

lemma start_creates:
  assumes "raises os Getcwd = None"
    and "popen_init_passes (version_info os) = execute_child_params (version_info os)"
  shows "\<exists>a. Call (CreateProcessAsUser a) \<in> set (emitted w (snd (start os self w)))"
proof -
  obtain tok cwd env' w4 w5 r where p: "ext w w4"
    "start_launch os (self\<lparr>port := random_port os\<rparr>)
       (start_cmd (self\<lparr>port := random_port os\<rparr>))
       (start_popen_kwargs (self\<lparr>port := random_port os\<rparr>) tok cwd env') tok w4 = (r, w5)"
    "ext w5 (snd (start os self w))"
    by (rule start_parts [OF assms(1), where ?self0.0 = self and ?w0.0 = w]) blast
  obtain a where "Call (CreateProcessAsUser a) \<in> set (emitted w4 w5)"
    using start_launch_creates [OF assms(2), of _ w4] p(2) by (metis snd_conv)
  from emitted_mem_lift [OF p(1) _ p(3) this] ext_start_launch [of w4 os] p(2)
  show ?thesis by (metis snd_conv)
qed

lemma start_cmd_port [simp]: "start_cmd (self\<lparr>port := n\<rparr>) = start_cmd self"
  by (simp add: start_cmd_def Let_def)

section \<open>The environment handed to the launcher\<close>

text \<open>
  C10. The keyword arguments that \<open>start\<close> builds have \<open>env\<close> bound to the environment
  it computed, whatever \<open>popen_kwargs\<close> holds; and every \<open>CreateProcessAsUser\<close> call
  that a run of \<open>start\<close> makes gets, as its environment, the environment computed by
  \<open>get_env\<close> and the update with the user's block.
\<close>

theorem launcher_env_is_computed_env:
  "kw_env (start_popen_kwargs s t d e) = Some (Some e)
   \<and> (\<forall>a. Call (CreateProcessAsUser a) \<in> set (emitted w (snd (start os self w))) \<longrightarrow>
         cp_env a =
           Some (snd (fst (start_user_env os (self\<lparr>port := random_port os\<rparr>)
                             (fst (start_token os self w))
                             (get_env os (self\<lparr>port := random_port os\<rparr>)) w))))"
proof (intro conjI allI impI)
  show "kw_env (start_popen_kwargs s t d e) = Some (Some e)" by simp
next
  fix a
  let ?E = "snd (fst (start_user_env os (self\<lparr>port := random_port os\<rparr>)
                             (fst (start_token os self w))
                             (get_env os (self\<lparr>port := random_port os\<rparr>)) w))"
  assume m: "Call (CreateProcessAsUser a) \<in> set (emitted w (snd (start os self w)))"
  have "emits_only (\<lambda>ev. \<forall>b. ev = Call (CreateProcessAsUser b) \<longrightarrow> cp_env b = Some ?E) w
          (snd (start os self w))"
    by (rule start_emits) auto
  from emits_onlyD [OF this m] show "cp_env a = Some ?E" by simp
qed

theorem launcher_env_is_computed_env_witness:
  "kw_env (popen_kwargs env_kwargs_spawner) = Some (Some [''PATH'' \<mapsto> ''C:/other''])
   \<and> (\<exists>a. Call (CreateProcessAsUser a)
             \<in> set (emitted world0 (snd (start quiet_os env_kwargs_spawner world0)))
          \<and> cp_env a =
             Some (snd (fst (start_user_env quiet_os
                               (env_kwargs_spawner\<lparr>port := random_port quiet_os\<rparr>)
                               (fst (start_token quiet_os env_kwargs_spawner world0))
                               (get_env quiet_os (env_kwargs_spawner\<lparr>port := random_port quiet_os\<rparr>))
                               world0))))"
proof -
  have g: "raises quiet_os Getcwd = None" by (simp add: quiet_os_def)
  have v: "popen_init_passes (version_info quiet_os) = execute_child_params (version_info quiet_os)"
    by (simp add: quiet_os_def popen_init_passes_def execute_child_params_def version_ge_def)
  obtain a where a: "Call (CreateProcessAsUser a)
             \<in> set (emitted world0 (snd (start quiet_os env_kwargs_spawner world0)))"
    using start_creates [OF g v] by blast
  have k: "kw_env (popen_kwargs env_kwargs_spawner) = Some (Some [''PATH'' \<mapsto> ''C:/other''])"
    by (simp add: env_kwargs_spawner_def spawner0_def no_kwargs_def)
  from launcher_env_is_computed_env [where w = world0 and os = quiet_os
      and self = env_kwargs_spawner, THEN conjunct2, rule_format, OF a] a k
  show ?thesis by blast
qed

section \<open>A refused creation\<close>

text \<open>
  When \<open>CreateProcessAsUser\<close> fails, pywin32 raises a \<open>pywintypes.error\<close>, which the
  handler of \<open>Exception\<close> in \<open>start\<close> gets: \<open>start\<close> logs that the process failed to
  start and raises the error again.
\<close>

lemma start_launch_refused:
  assumes "\<forall>a. raises os (CreateProcessAsUser a) = Some (Exception m)"
    and "popen_init_passes (version_info os) = execute_child_params (version_info os)"
  shows "fst (start_launch os self c kw tok w) = Inl (Exception m)
     \<and> Log Error (StartFailed (user_name self) (Exception m))
         \<in> set (emitted w (snd (start_launch os self c kw tok w)))"
proof -
  obtain r w1 where p: "PopenAsUser os (CmdList c) kw w = (r, w1)"
    by (cases "PopenAsUser os (CmdList c) kw w")
  have r: "r = Inl (Exception m)"
    using PopenAsUser_raises [OF assms, of "CmdList c" kw w] p by simp
  let ?l = "logger Error (StartFailed (user_name self) (Exception m)) w1"
  have s: "start_launch os self c kw tok w = (Inl (Exception m), detach_token os self tok ?l)"
    using p r by (simp add: start_launch_def)
  have 1: "ext w w1" using ext_PopenAsUser [of w os "CmdList c" kw] p by simp
  have 2: "ext w1 ?l" by (rule emits_only_logger) simp
  have 3: "ext ?l (detach_token os self tok ?l)" by (rule ext_detach)
  have "Log Error (StartFailed (user_name self) (Exception m)) \<in> set (emitted w1 ?l)"
    by simp
  from emitted_mem_lift [OF 1 2 3 this] s show ?thesis by simp
qed

lemma start_refused:
  assumes "\<forall>a. raises os (CreateProcessAsUser a) = Some (Exception m)"
    and "popen_init_passes (version_info os) = execute_child_params (version_info os)"
    and "raises os Getcwd = None"
  shows "fst (start os self w) = Inl (Exception m)
     \<and> Log Error (StartFailed (user_name self) (Exception m))
         \<in> set (emitted w (snd (start os self w)))"
proof -
  obtain tok cwd env' w4 w5 r where p: "ext w w4"
    "start_launch os (self\<lparr>port := random_port os\<rparr>)
       (start_cmd (self\<lparr>port := random_port os\<rparr>))
       (start_popen_kwargs (self\<lparr>port := random_port os\<rparr>) tok cwd env') tok w4 = (r, w5)"
    "ext w5 (snd (start os self w))"
    "\<And>e. r = Inl e \<Longrightarrow> fst (start os self w) = Inl e"
    by (rule start_parts [OF assms(3), where ?self0.0 = self and ?w0.0 = w]) blast
  note d = start_launch_refused [OF assms(1,2), of "self\<lparr>port := random_port os\<rparr>"
      "start_cmd (self\<lparr>port := random_port os\<rparr>)"
      "start_popen_kwargs (self\<lparr>port := random_port os\<rparr>) tok cwd env'" tok w4]
  from d p(2) have r: "r = Inl (Exception m)"
    and l: "Log Error (StartFailed (user_name self) (Exception m)) \<in> set (emitted w4 w5)"
    by simp_all
  have "ext w4 w5" using ext_start_launch [of w4 os] p(2) by (metis snd_conv)
  from emitted_mem_lift [OF p(1) this p(3) l] p(4) [OF r] show ?thesis by simp
qed

text \<open>
  Under CPython 3.11 and 3.12 \<open>Popen.__init__\<close> passes seven arguments after
  \<open>errwrite\<close> and the \<open>_execute_child\<close> that is defined takes six: the constructor
  raises a \<open>TypeError\<close> and makes no call.
\<close>

lemma arity_mismatch_run:
  "popen_init_passes (3, 11) = 7 \<and> execute_child_params (3, 11) = 6
   \<and> popen_init_passes (3, 12) = 7 \<and> execute_child_params (3, 12) = 6
   \<and> PopenAsUser py311_os args kw w = (Inl arity_error, w)"
  by (simp add: popen_init_passes_def execute_child_params_def version_ge_def PopenAsUser_def
      py311_os_def)

lemma arity_mismatch_start:
  "fst (start py311_os spawner0 world0) = Inl arity_error
   \<and> logs (emitted world0 (snd (start py311_os spawner0 world0))) =
       [(Info, Spawning ''jupyterhub-singleuser --port=8888''),
        (Error, StartFailed ''ann'' arity_error)]"
  by (simp add: start_def Let_def start_cmd_def spawner0_def shlex_quote_def safe_char_def
      logger_def start_token_def oscall_def py311_os_def quiet_os_def world0_def truthy_def
      start_user_env_def get_env_def win_env_keep_def determine_working_directory_def isdir_def
      userprofile_def bind_def ret_def start_popen_kwargs_def kwargs_update_def no_kwargs_def
      orelse_def start_launch_def PopenAsUser_def popen_init_passes_def execute_child_params_def
      version_ge_def arity_error_def detach_token_def emitted_def logs_def)

lemmas run_defs = start_def Let_def start_cmd_def spawner0_def shlex_quote_def safe_char_def
      logger_def start_token_def oscall_def denied_os_def quiet_os_def world0_def truthy_def
      start_user_env_def get_env_def win_env_keep_def determine_working_directory_def isdir_def
      userprofile_def bind_def ret_def start_popen_kwargs_def kwargs_update_def no_kwargs_def
      orelse_def start_launch_def PopenAsUser_def popen_init_passes_def execute_child_params_def
      version_ge_def dflt_def do_execute_child_def grant_access_def grant_try_def setup_sacl_def
      setup_sacl_try_def add_ace_def set_dacl_def GetSecurityDescriptorDacl_def new_acl_if_none_def
      create_and_check_def close_pipe_handles_def close_one_def detach_token_def

text \<open>
  C8. The user is \<open>ann\<close> with the token 7, the command is found by \<open>shutil.which\<close>
  under \<open>C:/Python/Scripts\<close>, and Windows refuses the creation of the process with
  the error 5, access denied. \<open>start\<close> raises the \<open>pywintypes.error\<close> of pywin32,
  not a \<open>PermissionError\<close>; the run logs the command, the exception in
  \<open>CreateProcessAsUser\<close> and the failure to start the process for \<open>ann\<close>, and no
  record names the path of the command: the handler of \<open>PermissionError\<close> (lines 139
  to 144) is not entered.
\<close>

theorem access_denied_raises_pywin32_error:
  "which denied_os ''jupyterhub-singleuser'' = Some ''C:/Python/Scripts/jupyterhub-singleuser.exe''
   \<and> fst (start denied_os spawner0 world0)
        = Inl (Exception ''(5, CreateProcessAsUser, Access is denied.)'')
   \<and> logs (emitted world0 (snd (start denied_os spawner0 world0))) =
       [(Info, Spawning ''jupyterhub-singleuser --port=8888''),
        (Error, CreateProcessException (Exception ''(5, CreateProcessAsUser, Access is denied.)'')),
        (Error, StartFailed ''ann'' (Exception ''(5, CreateProcessAsUser, Access is denied.)''))]"
proof (intro conjI)
  show "which denied_os ''jupyterhub-singleuser'' = Some ''C:/Python/Scripts/jupyterhub-singleuser.exe''"
    by (simp add: denied_os_def)
  show "fst (start denied_os spawner0 world0)
        = Inl (Exception ''(5, CreateProcessAsUser, Access is denied.)'')"
    by (simp add: run_defs)
  show "logs (emitted world0 (snd (start denied_os spawner0 world0))) =
       [(Info, Spawning ''jupyterhub-singleuser --port=8888''),
        (Error, CreateProcessException (Exception ''(5, CreateProcessAsUser, Access is denied.)'')),
        (Error, StartFailed ''ann'' (Exception ''(5, CreateProcessAsUser, Access is denied.)''))]"
    by (simp add: run_defs emitted_def logs_def)
qed

section \<open>Cleanup\<close>

lemma cc_result:
  "fst (create_and_check os tok a w) = Inr t \<Longrightarrow> t = created os"
  by (cases rule: cc_cases [of os a])
     (simp_all add: cc_raises cc_last_error cc_wait_raises cc_running cc_exit_raises cc_exited)

lemma dec_closes:
  assumes "(h, n) \<in> set [(p2cread, ''p2cread''), (c2pwrite, ''c2pwrite''), (errwrite, ''errwrite'')]"
    and "h \<noteq> -1"
  shows "Call (HandleClose h)
           \<in> set (emitted w (snd (do_execute_child os self args executable close_fds [] cwd env
                   startupinfo creationflags shell p2cread c2pwrite errwrite w)))"
    and "raises os (HandleClose h) = Some x \<Longrightarrow>
         Log Warning (CloseFailed n x)
           \<in> set (emitted w (snd (do_execute_child os self args executable close_fds [] cwd env
                   startupinfo creationflags shell p2cread c2pwrite errwrite w)))"
proof -
  let ?a = "create_args os self args executable close_fds cwd env startupinfo
             creationflags shell p2cread c2pwrite errwrite"
  let ?w1 = "grant_access os (p_token self) w"
  let ?cl = "emitted w (close_pipe_handles os self p2cread c2pwrite errwrite w)"
  obtain r w2 where cc: "create_and_check os (p_token self) ?a ?w1 = (r, w2)"
    by (cases "create_and_check os (p_token self) ?a ?w1")
  have sub: "set ?cl \<subseteq> set (emitted w (snd (do_execute_child os self args executable close_fds
                   [] cwd env startupinfo creationflags shell p2cread c2pwrite errwrite w)))"
    unfolding dec_emitted [OF cc] by (cases r) auto
  have 1: "Call (HandleClose h) \<in> set ?cl"
    using assms by (auto simp: close_pipe_handles_emitted close_one_emitted)
  have 2: "Log Warning (CloseFailed n x) \<in> set ?cl" if "raises os (HandleClose h) = Some x"
    using assms that by (auto simp: close_pipe_handles_emitted close_one_emitted)
  from 1 sub show "Call (HandleClose h)
           \<in> set (emitted w (snd (do_execute_child os self args executable close_fds [] cwd env
                   startupinfo creationflags shell p2cread c2pwrite errwrite w)))"
    by blast
  from 2 sub show "raises os (HandleClose h) = Some x \<Longrightarrow>
         Log Warning (CloseFailed n x)
           \<in> set (emitted w (snd (do_execute_child os self args executable close_fds [] cwd env
                   startupinfo creationflags shell p2cread c2pwrite errwrite w)))"
    by blast
qed

lemma dec_closes_thread:
  assumes "fst (create_and_check os (p_token self)
                 (create_args os self args executable close_fds cwd env startupinfo
                    creationflags shell p2cread c2pwrite errwrite) w) = Inr (hp, ht, cpid, tid)"
    and "ht \<noteq> 0"
  shows "Call (CloseHandle ht)
           \<in> set (emitted w (snd (do_execute_child os self args executable close_fds [] cwd env
                   startupinfo creationflags shell p2cread c2pwrite errwrite w)))"
proof -
  let ?a = "create_args os self args executable close_fds cwd env startupinfo
             creationflags shell p2cread c2pwrite errwrite"
  let ?w1 = "grant_access os (p_token self) w"
  obtain r w2 where cc: "create_and_check os (p_token self) ?a ?w1 = (r, w2)"
    by (cases "create_and_check os (p_token self) ?a ?w1")
  have "r = Inr (hp, ht, cpid, tid)"
    using create_and_check_fst [of os "p_token self" ?a ?w1 w] cc assms(1) by simp
  then show ?thesis
    unfolding dec_emitted [OF cc] using assms(2) by simp
qed

lemma create_and_check_fst_cong:
  assumes "\<forall>c. \<not> is_cleanup_call c \<longrightarrow> r' c = raises os c"
  shows "fst (create_and_check (os\<lparr>raises := r'\<rparr>) tok a w) = fst (create_and_check os tok a w)"
proof -
  have r: "r' (CreateProcessAsUser a) = raises os (CreateProcessAsUser a)"
    "\<And>h t. r' (WaitForSingleObject h t) = raises os (WaitForSingleObject h t)"
    "\<And>h. r' (GetExitCodeProcess h) = raises os (GetExitCodeProcess h)"
    using assms by simp_all
  show ?thesis
    by (cases "created os")
       (simp add: create_and_check_def bind_def ret_def oscall_def invoke_def logger_def Let_def r
          split: option.splits)
qed

lemma create_args_cong [simp]:
  "create_args (os\<lparr>raises := r'\<rparr>) = create_args os"
  by (intro ext) (simp add: create_args_def args_shell_def comspec_def)

lemma dec_fst_cong:
  assumes "\<forall>c. \<not> is_cleanup_call c \<longrightarrow> r' c = raises os c"
  shows "fst (do_execute_child (os\<lparr>raises := r'\<rparr>) self args executable close_fds [] cwd env
           startupinfo creationflags shell p2cread c2pwrite errwrite w)
       = fst (do_execute_child os self args executable close_fds [] cwd env
           startupinfo creationflags shell p2cread c2pwrite errwrite w)"
proof -
  have d: "r' (HandleDetach h) = raises os (HandleDetach h)" for h
    using assms by simp
  show ?thesis
    unfolding dec_fst create_args_cong create_and_check_fst_cong [OF assms]
    by (simp add: retain_handle_fst d split: sum.splits)
qed

lemma PopenAsUser_fst_cong:
  assumes "\<forall>c. \<not> is_cleanup_call c \<longrightarrow> r' c = raises os c"
  shows "fst (PopenAsUser (os\<lparr>raises := r'\<rparr>) args kw w) = fst (PopenAsUser os args kw w)"
  unfolding PopenAsUser_def Let_def
  by (cases "std_handles os") (simp add: dec_fst_cong [OF assms])

lemma start_launch_split:
  "\<exists>w1. ext w w1 \<and>
     start_launch os self c kw tok w =
       (case fst (PopenAsUser os (CmdList c) kw w) of
          Inr p \<Rightarrow> Inr (self\<lparr>proc := Some p, pid := p_pid p\<rparr>)
        | Inl (PermissionError m) \<Rightarrow>
            (case c of [] \<Rightarrow> Inl (Exception ''list index out of range'')
                     | c0 # _ \<Rightarrow> Inl (PermissionError m))
        | Inl (Exception m) \<Rightarrow> Inl (Exception m),
        detach_token os self tok w1)"
proof -
  obtain r w0 where p: "PopenAsUser os (CmdList c) kw w = (r, w0)"
    by (cases "PopenAsUser os (CmdList c) kw w")
  have 1: "ext w w0" using ext_PopenAsUser [of w os "CmdList c" kw] p by simp
  have l: "ext w w0 \<Longrightarrow> ext w (logger lv m w0)" for lv m
    by (erule emits_only_trans) (rule emits_only_logger, simp)
  show ?thesis
  proof (cases r)
    case (Inr q)
    with p 1 show ?thesis by (auto simp: start_launch_def)
  next
    case (Inl e)
    show ?thesis
    proof (cases e)
      case (Exception m)
      with Inl p l [OF 1] show ?thesis by (auto simp: start_launch_def)
    next
      case (PermissionError m)
      with Inl p l [OF 1] 1 show ?thesis
        by (cases c) (auto simp: start_launch_def)
    qed
  qed
qed

lemma detach_token_emitted:
  "emitted w (detach_token os self (Some h) w) =
     (if h \<noteq> 0
      then Call (TokenDetach h) #
             (case raises os (TokenDetach h) of
                None \<Rightarrow> [] | Some x \<Rightarrow> [Log Warning (TokenDetachFailed (user_name self) x)])
      else [])"
  by (simp add: detach_token_def oscall_def logger_def emitted_def split: option.splits)

lemma start_launch_detaches:
  assumes "h \<noteq> 0"
  shows "Call (TokenDetach h) \<in> set (emitted w (snd (start_launch os self c kw (Some h) w)))"
    and "raises os (TokenDetach h) = Some x \<Longrightarrow>
         Log Warning (TokenDetachFailed (user_name self) x)
           \<in> set (emitted w (snd (start_launch os self c kw (Some h) w)))"
proof -
  obtain w1 where 1: "ext w w1"
    and s: "snd (start_launch os self c kw (Some h) w) = detach_token os self (Some h) w1"
    using start_launch_split [of w os self c kw "Some h"] by auto
  have e: "emitted w (detach_token os self (Some h) w1)
         = emitted w w1 @ emitted w1 (detach_token os self (Some h) w1)"
    by (rule emitted_append [OF 1 ext_detach])
  show "Call (TokenDetach h) \<in> set (emitted w (snd (start_launch os self c kw (Some h) w)))"
    unfolding s e using assms by (simp add: detach_token_emitted)
  show "raises os (TokenDetach h) = Some x \<Longrightarrow>
         Log Warning (TokenDetachFailed (user_name self) x)
           \<in> set (emitted w (snd (start_launch os self c kw (Some h) w)))"
    unfolding s e using assms by (simp add: detach_token_emitted)
qed

lemma start_launch_fst_cong:
  assumes "\<forall>c. \<not> is_cleanup_call c \<longrightarrow> r' c = raises os c"
  shows "fst (start_launch (os\<lparr>raises := r'\<rparr>) self c kw tok w)
       = fst (start_launch os self c kw tok w)"
proof -
  obtain w1 where a: "start_launch os self c kw tok w =
       (case fst (PopenAsUser os (CmdList c) kw w) of
          Inr p \<Rightarrow> Inr (self\<lparr>proc := Some p, pid := p_pid p\<rparr>)
        | Inl (PermissionError m) \<Rightarrow>
            (case c of [] \<Rightarrow> Inl (Exception ''list index out of range'')
                     | c0 # _ \<Rightarrow> Inl (PermissionError m))
        | Inl (Exception m) \<Rightarrow> Inl (Exception m),
        detach_token os self tok w1)"
    using start_launch_split [of w os self c kw tok] by blast
  obtain w2 where b: "start_launch (os\<lparr>raises := r'\<rparr>) self c kw tok w =
       (case fst (PopenAsUser (os\<lparr>raises := r'\<rparr>) (CmdList c) kw w) of
          Inr p \<Rightarrow> Inr (self\<lparr>proc := Some p, pid := p_pid p\<rparr>)
        | Inl (PermissionError m) \<Rightarrow>
            (case c of [] \<Rightarrow> Inl (Exception ''list index out of range'')
                     | c0 # _ \<Rightarrow> Inl (PermissionError m))
        | Inl (Exception m) \<Rightarrow> Inl (Exception m),
        detach_token (os\<lparr>raises := r'\<rparr>) self tok w2)"
    using start_launch_split [of w "os\<lparr>raises := r'\<rparr>" self c kw tok] by blast
  show ?thesis
    unfolding a b PopenAsUser_fst_cong [OF assms] by simp
qed

text \<open>
  What the cleanup does on every path. Let \<open>r'\<close> be any behaviour of the calls that agrees with the
  operating system except on the closing of pipe ends and of devnull and on the detaching
  of the token. In every run of \<open>do_execute_child\<close> that passes the assertion, each of
  the three child-side handles that is not \<open>-1\<close> has its \<open>Close\<close> called, and a
  \<open>Close\<close> that raises is logged as a warning under the name of the handle; when the
  body of the first \<open>try\<close> block returns handles, \<open>CloseHandle\<close> is called on the
  thread handle; and the result or exception of the run is the same under \<open>r'\<close>. In
  every run of the launch block of \<open>start\<close>, a token that is not null has its
  \<open>Detach\<close> called, a \<open>Detach\<close> that raises is logged as a warning, and the result
  or exception is the same under \<open>r'\<close>. The \<open>finally\<close> block calls nothing on the
  token but \<open>Detach\<close>.
\<close>

lemma cleanup_attempts:
  assumes "\<forall>c. \<not> is_cleanup_call c \<longrightarrow> r' c = raises os c"
  shows
  "(let run = do_execute_child os self args executable close_fds [] cwd env startupinfo
                creationflags shell p2cread c2pwrite errwrite w;
        evs = emitted w (snd run)
    in (\<forall>(h, n) \<in> set [(p2cread, ''p2cread''), (c2pwrite, ''c2pwrite''), (errwrite, ''errwrite'')].
          h \<noteq> -1 \<longrightarrow>
            Call (HandleClose h) \<in> set evs
          \<and> (\<forall>x. raises os (HandleClose h) = Some x \<longrightarrow> Log Warning (CloseFailed n x) \<in> set evs))
     \<and> (\<forall>hp ht cpid tid.
          fst (create_and_check os (p_token self)
                 (create_args os self args executable close_fds cwd env startupinfo
                    creationflags shell p2cread c2pwrite errwrite) w) = Inr (hp, ht, cpid, tid)
          \<and> ht \<noteq> 0 \<longrightarrow> Call (CloseHandle ht) \<in> set evs)
     \<and> fst (do_execute_child (os\<lparr>raises := r'\<rparr>) self args executable close_fds [] cwd env
               startupinfo creationflags shell p2cread c2pwrite errwrite w) = fst run)
   \<and> (let out = start_launch os sp c kw tok v;
           evs = emitted v (snd out)
       in (\<forall>h. tok = Some h \<and> h \<noteq> 0 \<longrightarrow>
             Call (TokenDetach h) \<in> set evs
           \<and> (\<forall>x. raises os (TokenDetach h) = Some x \<longrightarrow>
                 Log Warning (TokenDetachFailed (user_name sp) x) \<in> set evs))
        \<and> fst (start_launch (os\<lparr>raises := r'\<rparr>) sp c kw tok v) = fst out)
   \<and> (\<forall>h. list_all (\<lambda>ev. ev = Call (TokenDetach h)
                        \<or> (\<exists>x. ev = Log Warning (TokenDetachFailed (user_name sp) x)))
             (emitted v (detach_token os sp (Some h) v)))"
proof (intro conjI)
  show "let run = do_execute_child os self args executable close_fds [] cwd env startupinfo
                creationflags shell p2cread c2pwrite errwrite w;
        evs = emitted w (snd run)
    in (\<forall>(h, n) \<in> set [(p2cread, ''p2cread''), (c2pwrite, ''c2pwrite''), (errwrite, ''errwrite'')].
          h \<noteq> -1 \<longrightarrow>
            Call (HandleClose h) \<in> set evs
          \<and> (\<forall>x. raises os (HandleClose h) = Some x \<longrightarrow> Log Warning (CloseFailed n x) \<in> set evs))
     \<and> (\<forall>hp ht cpid tid.
          fst (create_and_check os (p_token self)
                 (create_args os self args executable close_fds cwd env startupinfo
                    creationflags shell p2cread c2pwrite errwrite) w) = Inr (hp, ht, cpid, tid)
          \<and> ht \<noteq> 0 \<longrightarrow> Call (CloseHandle ht) \<in> set evs)
     \<and> fst (do_execute_child (os\<lparr>raises := r'\<rparr>) self args executable close_fds [] cwd env
               startupinfo creationflags shell p2cread c2pwrite errwrite w) = fst run"
    unfolding Let_def
  proof (intro conjI ballI allI impI)
    fix hn
    assume m: "hn \<in> set [(p2cread, ''p2cread''), (c2pwrite, ''c2pwrite''), (errwrite, ''errwrite'')]"
    obtain h n where hn: "hn = (h, n)" by (cases hn)
    show "case hn of (h, n) \<Rightarrow> h \<noteq> -1 \<longrightarrow>
            Call (HandleClose h) \<in> set (emitted w (snd (do_execute_child os self args executable
               close_fds [] cwd env startupinfo creationflags shell p2cread c2pwrite errwrite w)))
          \<and> (\<forall>x. raises os (HandleClose h) = Some x \<longrightarrow>
               Log Warning (CloseFailed n x) \<in> set (emitted w (snd (do_execute_child os self args
                 executable close_fds [] cwd env startupinfo creationflags shell p2cread c2pwrite
                 errwrite w))))"
      unfolding hn prod.case
      using dec_closes(1) [OF m [unfolded hn], where w = w and os = os and self = self
          and args = args and executable = executable and close_fds = close_fds and cwd = cwd
          and env = env and startupinfo = startupinfo and creationflags = creationflags
          and shell = shell]
        dec_closes(2) [OF m [unfolded hn], where w = w and os = os and self = self
          and args = args and executable = executable and close_fds = close_fds and cwd = cwd
          and env = env and startupinfo = startupinfo and creationflags = creationflags
          and shell = shell]
      by auto
  next
    fix hp ht cpid tid
    assume "fst (create_and_check os (p_token self)
                 (create_args os self args executable close_fds cwd env startupinfo
                    creationflags shell p2cread c2pwrite errwrite) w) = Inr (hp, ht, cpid, tid)
          \<and> ht \<noteq> 0"
    then show "Call (CloseHandle ht) \<in> set (emitted w (snd (do_execute_child os self args
                 executable close_fds [] cwd env startupinfo creationflags shell p2cread c2pwrite
                 errwrite w)))"
      using dec_closes_thread by blast
  next
    show "fst (do_execute_child (os\<lparr>raises := r'\<rparr>) self args executable close_fds [] cwd env
               startupinfo creationflags shell p2cread c2pwrite errwrite w)
        = fst (do_execute_child os self args executable close_fds [] cwd env
               startupinfo creationflags shell p2cread c2pwrite errwrite w)"
      by (rule dec_fst_cong [OF assms])
  qed
next
  show "let out = start_launch os sp c kw tok v;
           evs = emitted v (snd out)
       in (\<forall>h. tok = Some h \<and> h \<noteq> 0 \<longrightarrow>
             Call (TokenDetach h) \<in> set evs
           \<and> (\<forall>x. raises os (TokenDetach h) = Some x \<longrightarrow>
                 Log Warning (TokenDetachFailed (user_name sp) x) \<in> set evs))
        \<and> fst (start_launch (os\<lparr>raises := r'\<rparr>) sp c kw tok v) = fst out"
    unfolding Let_def
    using start_launch_detaches [where w = v and os = os and self = sp and c = c and kw = kw]
      start_launch_fst_cong [OF assms, where self = sp and c = c and kw = kw and tok = tok
        and w = v]
    by blast
next
  show "\<forall>h. list_all (\<lambda>ev. ev = Call (TokenDetach h)
                        \<or> (\<exists>x. ev = Log Warning (TokenDetachFailed (user_name sp) x)))
             (emitted v (detach_token os sp (Some h) v))"
    by (simp add: detach_token_emitted split: option.splits)
qed

lemma cleanup_attempts_run:
  "Call (HandleClose 3) \<in> set (emitted world0 (snd (piped_launch close_fails_os popen0 world0)))
   \<and> Call (HandleClose 4) \<in> set (emitted world0 (snd (piped_launch close_fails_os popen0 world0)))
   \<and> Call (HandleClose 5) \<in> set (emitted world0 (snd (piped_launch close_fails_os popen0 world0)))
   \<and> Log Warning (CloseFailed ''c2pwrite'' (Exception ''The handle is invalid''))
        \<in> set (emitted world0 (snd (piped_launch close_fails_os popen0 world0)))
   \<and> Call (CloseHandle 101) \<in> set (emitted world0 (snd (piped_launch close_fails_os popen0 world0)))
   \<and> fst (piped_launch (close_fails_os\<lparr>raises := \<lambda>c. None\<rparr>) popen0 world0)
        = fst (piped_launch close_fails_os popen0 world0)
   \<and> Call (TokenDetach 7)
        \<in> set (emitted world0 (snd (start_launch close_fails_os spawner0
                   [''jupyterhub-singleuser''] no_kwargs (Some 7) world0)))
   \<and> Log Warning (TokenDetachFailed ''ann'' (Exception ''The handle is invalid''))
        \<in> set (emitted world0 (snd (start_launch close_fails_os spawner0
                   [''jupyterhub-singleuser''] no_kwargs (Some 7) world0)))
   \<and> fst (start_launch (close_fails_os\<lparr>raises := \<lambda>c. None\<rparr>) spawner0
             [''jupyterhub-singleuser''] no_kwargs (Some 7) world0)
        = fst (start_launch close_fails_os spawner0
             [''jupyterhub-singleuser''] no_kwargs (Some 7) world0)"
proof -
  have ag: "\<forall>c. \<not> is_cleanup_call c \<longrightarrow> (\<lambda>c. None) c = raises close_fails_os c"
    by (auto simp: close_fails_os_def)
  have r: "raises close_fails_os (HandleClose 4) = Some (Exception ''The handle is invalid'')"
    "raises close_fails_os (TokenDetach 7) = Some (Exception ''The handle is invalid'')"
    "user_name spawner0 = ''ann''"
    by (simp_all add: close_fails_os_def spawner0_def)
  let ?a = "create_args close_fails_os popen0 (CmdList [''jupyterhub-singleuser'', ''--port=8888''])
              None False (Some ''C:/hub'') None None 0 False 3 4 5"
  have q: "raises close_fails_os (CreateProcessAsUser ?a) = None" "last_error close_fails_os = 0"
    "raises close_fails_os (WaitForSingleObject (fst (created close_fails_os)) 1000) = None"
    "wait_result close_fails_os \<noteq> WAIT_OBJECT_0"
    "created close_fails_os = (100, 101, 4242, 4243)"
    by (simp_all add: close_fails_os_def quiet_os_def WAIT_OBJECT_0_def)
  have cc: "fst (create_and_check close_fails_os (p_token popen0) ?a world0)
              = Inr (100, 101, 4242, 4243)"
    by (simp add: cc_running [OF q(1-4)] q(5))
  note t = cleanup_attempts [OF ag, where self = popen0
      and args = "CmdList [''jupyterhub-singleuser'', ''--port=8888'']" and executable = None
      and close_fds = False and cwd = "Some ''C:/hub''" and env = None and startupinfo = None
      and creationflags = 0 and shell = False and p2cread = 3 and c2pwrite = 4
      and errwrite = 5 and w = world0 and sp = spawner0 and c = "[''jupyterhub-singleuser'']"
      and kw = no_kwargs and tok = "Some 7" and v = world0,
      unfolded Let_def, folded piped_launch_def]
  note t1 = t [THEN conjunct1]
  note t2 = t [THEN conjunct2, THEN conjunct1]
  have c3: "Call (HandleClose 3) \<in> set (emitted world0 (snd (piped_launch close_fails_os popen0 world0)))"
    and c4: "Call (HandleClose 4) \<in> set (emitted world0 (snd (piped_launch close_fails_os popen0 world0)))"
    and c5: "Call (HandleClose 5) \<in> set (emitted world0 (snd (piped_launch close_fails_os popen0 world0)))"
    and l4: "Log Warning (CloseFailed ''c2pwrite'' (Exception ''The handle is invalid''))
        \<in> set (emitted world0 (snd (piped_launch close_fails_os popen0 world0)))"
    using t1 [THEN conjunct1] r(1) by auto
  have th: "Call (CloseHandle 101) \<in> set (emitted world0 (snd (piped_launch close_fails_os popen0 world0)))"
    using t1 [THEN conjunct2, THEN conjunct1] cc by auto
  have ni: "fst (piped_launch (close_fails_os\<lparr>raises := \<lambda>c. None\<rparr>) popen0 world0)
        = fst (piped_launch close_fails_os popen0 world0)"
    using t1 [THEN conjunct2, THEN conjunct2] by (simp add: piped_launch_def)
  have d: "Call (TokenDetach 7)
        \<in> set (emitted world0 (snd (start_launch close_fails_os spawner0
                   [''jupyterhub-singleuser''] no_kwargs (Some 7) world0)))"
    and dl: "Log Warning (TokenDetachFailed ''ann'' (Exception ''The handle is invalid''))
        \<in> set (emitted world0 (snd (start_launch close_fails_os spawner0
                   [''jupyterhub-singleuser''] no_kwargs (Some 7) world0)))"
    and dn: "fst (start_launch (close_fails_os\<lparr>raises := \<lambda>c. None\<rparr>) spawner0
             [''jupyterhub-singleuser''] no_kwargs (Some 7) world0)
        = fst (start_launch close_fails_os spawner0
             [''jupyterhub-singleuser''] no_kwargs (Some 7) world0)"
    using t2 r(2,3) by auto
  from c3 c4 c5 l4 th ni d dl dn show ?thesis by blast
qed


text \<open>What a launch that returns has stored: the process handle and the pid.\<close>

lemma dec_stores:
  assumes "fst (do_execute_child os self args executable close_fds [] cwd env startupinfo
                  creationflags shell p2cread c2pwrite errwrite w) = Inr q"
    and "created os = (hp, ht, cpid, tid)"
  shows "q = (if hp \<noteq> 0
              then self\<lparr>child_created := True, p_handle := Some hp, p_pid := Some cpid\<rparr>
              else self\<lparr>child_created := True\<rparr>)"
proof -
  let ?cc = "fst (create_and_check os (p_token self)
                 (create_args os self args executable close_fds cwd env startupinfo
                    creationflags shell p2cread c2pwrite errwrite) w)"
  from assms(1) obtain t where t: "?cc = Inr t"
    unfolding dec_fst by (cases ?cc) auto
  from cc_result [OF t] assms(2) have "t = (hp, ht, cpid, tid)" by simp
  with assms(1) t show ?thesis
    unfolding dec_fst by (simp add: retain_handle_fst split: if_splits option.splits)
qed

text \<open>
  A run in which the close of the thread handle 101 fails: the call is the last event of
  the run, and no log record follows it.
\<close>

lemma unlogged_close_run:
  "closehandle_result thread_close_fails_os 101 = False
   \<and> emitted world0 (snd (launch thread_close_fails_os (popen0\<lparr>p_token := None\<rparr>) world0)) =
       [Call (CreateProcessAsUser
                (launch_args thread_close_fails_os (popen0\<lparr>p_token := None\<rparr>))),
        Call GetLastError,
        Call (WaitForSingleObject 100 1000),
        Call (HandleDetach 100),
        Call (CloseHandle 101)]"
proof -
  let ?self = "popen0\<lparr>p_token := None\<rparr>"
  let ?a = "launch_args thread_close_fails_os ?self"
  have c: "created thread_close_fails_os = (100, 101, 4242, 4243)"
    by (simp add: thread_close_fails_os_def quiet_os_def)
  have r: "raises thread_close_fails_os (CreateProcessAsUser ?a) = None"
    "last_error thread_close_fails_os = 0"
    "raises thread_close_fails_os
       (WaitForSingleObject (fst (created thread_close_fails_os)) 1000) = None"
    "wait_result thread_close_fails_os \<noteq> WAIT_OBJECT_0"
    by (simp_all add: thread_close_fails_os_def quiet_os_def WAIT_OBJECT_0_def)
  have t: "p_token ?self = None" "\<not> truthy (p_token ?self)" "devnull ?self = None"
    by (simp_all add: truthy_def popen0_def)
  have g: "grant_access thread_close_fails_os (p_token ?self) world0 = world0"
    by (rule grant_access_none [OF t(2)])
  note p = cc_running [OF r, of "p_token ?self" world0]
  have cc: "create_and_check thread_close_fails_os (p_token ?self)
      (create_args thread_close_fails_os ?self
         (CmdList [''jupyterhub-singleuser'', ''--port=8888''])
         None False (Some ''C:/hub'') None None 0 False (-1) (-1) (-1))
      (grant_access thread_close_fails_os (p_token ?self) world0) =
      (Inr (100, 101, 4242, 4243),
       world0\<lparr>trace := trace world0 @ [Call (CreateProcessAsUser ?a), Call GetLastError,
            Call (WaitForSingleObject 100 1000)]\<rparr>)"
    unfolding g using p by (simp add: c launch_args_def)
  have e: "emitted world0 (snd (launch thread_close_fails_os ?self world0)) =
       [Call (CreateProcessAsUser ?a), Call GetLastError,
        Call (WaitForSingleObject 100 1000),
        Call (HandleDetach 100), Call (CloseHandle 101)]"
    unfolding launch_def dec_emitted [OF cc] g
    by (simp add: close_pipe_handles_emitted close_one_emitted t(3))
  show ?thesis
    using e by (simp add: thread_close_fails_os_def)
qed

lemmas launch_defs = piped_launch_def launch_def do_execute_child_def Let_def grant_access_def
  truthy_def popen0_def create_and_check_def bind_def ret_def oscall_def invoke_def logger_def
  close_pipe_handles_def close_one_def retain_handle_def wait_fails_os_def quiet_os_def
  world0_def

text \<open>
  C2. The three streams are redirected to the handles 3, 4 and 5; the process is created
  with the process handle 100 and the thread handle 101, the query of the last error
  returns 0 and the wait on the process handle raises. The run ends with that exception
  after the three pipe ends were closed by the \<open>finally\<close> block of the first \<open>try\<close>;
  the second \<open>try\<close>, whose \<open>finally\<close> block closes the thread handle, is not
  reached, and \<open>CloseHandle\<close> is never called on the thread handle 101.
\<close>

theorem thread_handle_left_open_when_wait_raises:
  "created wait_fails_os = (100, 101, 4242, 4243)
   \<and> fst (piped_launch wait_fails_os (popen0\<lparr>p_token := None\<rparr>) world0)
        = Inl (Exception ''wait failed'')
   \<and> emitted world0 (snd (piped_launch wait_fails_os (popen0\<lparr>p_token := None\<rparr>) world0)) =
       [Call (CreateProcessAsUser (piped_launch_args wait_fails_os (popen0\<lparr>p_token := None\<rparr>))),
        Call GetLastError,
        Call (WaitForSingleObject 100 1000),
        Log Error (CreateProcessException (Exception ''wait failed'')),
        Call (HandleClose 3), Call (HandleClose 4), Call (HandleClose 5)]
   \<and> Call (CloseHandle 101)
        \<notin> set (emitted world0 (snd (piped_launch wait_fails_os (popen0\<lparr>p_token := None\<rparr>) world0)))"
proof -
  have c: "created wait_fails_os = (100, 101, 4242, 4243)"
    by (simp add: wait_fails_os_def quiet_os_def)
  have f: "fst (piped_launch wait_fails_os (popen0\<lparr>p_token := None\<rparr>) world0)
        = Inl (Exception ''wait failed'')"
    by (simp add: launch_defs)
  have e: "emitted world0 (snd (piped_launch wait_fails_os (popen0\<lparr>p_token := None\<rparr>) world0)) =
       [Call (CreateProcessAsUser (piped_launch_args wait_fails_os (popen0\<lparr>p_token := None\<rparr>))),
        Call GetLastError,
        Call (WaitForSingleObject 100 1000),
        Log Error (CreateProcessException (Exception ''wait failed'')),
        Call (HandleClose 3), Call (HandleClose 4), Call (HandleClose 5)]"
    by (simp add: launch_defs emitted_def piped_launch_args_def)
  show ?thesis
    unfolding e using c f by simp
qed

end
